theory Spec2Isabelle
  imports Main "HOL-Library.Word"
begin

section \<open>The authentication controller of amb-backend\<close>

text \<open>
  A shallow embedding of \<^verbatim>\<open>src/controllers/authController.ts\<close>. Each handler
  \<^verbatim>\<open>async (req, res, next)\<close> becomes a function from the request fields and the
  credential store to its outcome: \<open>Inl e\<close> when the handler throws \<open>e\<close> (the
  \<^verbatim>\<open>catch\<close> block hands it to \<^verbatim>\<open>next\<close>), \<open>Inr r\<close> when it answers with
  \<^verbatim>\<open>res.status(..).json(..)\<close>. Handlers that write return the store as they leave it.

  The collaborators that are not part of the controller are parameters:
  the password hasher (bcryptjs), the process configuration, and the request's
  environment (clock, randomness, the outcome of the mail transport).
  Request fields are strings, as the routes document them.
\<close>

subsection \<open>Errors and the credential store\<close>

text \<open>
  The classes of \<^verbatim>\<open>utils/errorTypes\<close>, each carrying its message. \<open>TransportError\<close>
  stands for the rejection of \<^verbatim>\<open>transporter.sendMail\<close>, which is not one of them.
\<close>

datatype error =
    NotFoundError string
  | BadRequestError string
  | ForbiddenError string
  | UnauthorizedError string
  | TransportError string

text \<open>The three Sequelize models, \<^verbatim>\<open>const { Admin, Employer, JobSeeker } = db\<close>.\<close>

datatype model = Admin | Employer | JobSeeker

text \<open>
  A row of a model. The controller reads and writes \<^verbatim>\<open>id\<close>, \<^verbatim>\<open>email\<close>,
  \<^verbatim>\<open>password\<close>, \<^verbatim>\<open>deleted\<close>, \<^verbatim>\<open>role\<close>, \<^verbatim>\<open>reset_token\<close>,
  \<^verbatim>\<open>token_expiry\<close> and \<^verbatim>\<open>modified\<close>; everything else (\<^verbatim>\<open>name\<close>,
  \<^verbatim>\<open>clinic_name\<close>, \<^verbatim>\<open>otherData\<close>) is carried in \<open>other_fields\<close>. Dates are
  milliseconds since the epoch. The type of \<open>password\<close> is a parameter: a stored row
  has the hash, a serialised one may lack the key.
\<close>

record 'pw row =
  id_pk :: nat
  email :: string
  password :: 'pw
  deleted :: bool
  role :: "string option"
  reset_token :: "string option"
  token_expiry :: "int option"
  modified :: "int option"
  other_fields :: "(string \<times> string) list"

type_synonym account = "string row"

type_synonym profile = "string option row"

type_synonym db = "model \<Rightarrow> account list"

subsection \<open>Collaborators\<close>

text \<open>
  bcryptjs: \<^verbatim>\<open>genSalt(rounds)\<close> draws a salt from the randomness it is given,
  \<^verbatim>\<open>hash(password, salt)\<close>, \<^verbatim>\<open>compare(password, hash)\<close>.
\<close>

record bcrypt =
  bcrypt_genSalt :: "nat \<Rightarrow> string \<Rightarrow> string"
  bcrypt_hash :: "string \<Rightarrow> string \<Rightarrow> string"
  bcrypt_compare :: "string \<Rightarrow> string \<Rightarrow> bool"

text \<open>\<^verbatim>\<open>process.env\<close>, as far as the token issuer reads it.\<close>

record config =
  JWT_EXPIRATION :: "string option"

text \<open>
  What one request draws from outside: \<^verbatim>\<open>Date.now()\<close>, the randomness behind
  \<^verbatim>\<open>bcrypt.genSalt\<close>, the bytes behind \<^verbatim>\<open>crypto.randomBytes\<close>, and whether
  \<^verbatim>\<open>transporter.sendMail\<close> resolves (\<open>None\<close>) or rejects with an error.
\<close>

record env =
  now :: int
  salt_seed :: string
  entropy :: "nat \<Rightarrow> 8 word"
  sendMail_error :: "string option"

subsection \<open>Tokens and responses\<close>

text \<open>
  \<^verbatim>\<open>jwt.sign({ id, email, role }, secret, { expiresIn })\<close>: the token is modelled by
  what it encodes, its payload and its lifetime; the signature is the library's.
  The authentication middleware hands the payload back as \<^verbatim>\<open>req.user\<close>.
\<close>

record claims =
  claim_id :: nat
  claim_email :: string
  claim_role :: string

record token =
  payload :: claims
  expiresIn :: string

datatype json =
    RegisterData profile token
  | LoginData "string option" profile token
  | UserData profile
  | Message bool string

record response =
  status :: nat
  body :: json

record mail =
  mail_to :: string
  mail_link :: string

definition generateToken :: "config \<Rightarrow> 'pw row \<Rightarrow> string \<Rightarrow> token" where
  "generateToken cfg user rl =
     \<lparr>payload = \<lparr>claim_id = id_pk user, claim_email = email user, claim_role = rl\<rparr>,
      expiresIn = (case JWT_EXPIRATION cfg of
                     None \<Rightarrow> ''1d''
                   | Some s \<Rightarrow> if s = [] then ''1d'' else s)\<rparr>"

subsection \<open>The ORM calls the controller makes\<close>

definition findOne :: "(account \<Rightarrow> bool) \<Rightarrow> account list \<Rightarrow> account option" where
  "findOne wh tbl = find wh tbl"

definition findByPk :: "nat \<Rightarrow> account list \<Rightarrow> account option" where
  "findByPk i tbl = find (\<lambda>a. id_pk a = i) tbl"

text \<open>\<^verbatim>\<open>user.save()\<close>: an update of the row with the instance's primary key.\<close>

definition save :: "account \<Rightarrow> account list \<Rightarrow> account list" where
  "save u tbl = map (\<lambda>a. if id_pk a = id_pk u then u else a) tbl"

text \<open>The attributes of an instance, and \<^verbatim>\<open>attributes: { exclude: ['password'] }\<close>.\<close>

definition attributes :: "account \<Rightarrow> profile" where
  "attributes a =
     \<lparr>id_pk = id_pk a, email = email a, password = Some (password a), deleted = deleted a,
      role = role a, reset_token = reset_token a, token_expiry = token_expiry a,
      modified = modified a, other_fields = other_fields a\<rparr>"

definition exclude_password :: "profile \<Rightarrow> profile" where
  "exclude_password p = p\<lparr>password := None\<rparr>"

text \<open>
  Modelled from the spec: the primary key the store gives a created row (the models and
  their tables are not among the sources), one above every key of the table.
\<close>

definition next_id :: "account list \<Rightarrow> nat" where
  "next_id tbl = Suc (fold max (map id_pk tbl) 0)"

text \<open>
  Modelled from the spec: the models' \<^verbatim>\<open>create\<close> (\<^verbatim>\<open>src/models\<close> is not among the
  sources). "Side effect: one account row created": the row gets a primary key no row of
  the table has, the soft-delete flag off and no reset token; the remaining fields of the
  request (\<^verbatim>\<open>name\<close> or \<^verbatim>\<open>clinic_name\<close>, and \<^verbatim>\<open>otherData\<close>) are kept in
  \<open>other_fields\<close> as they came and are not read as columns.
\<close>

definition create :: "account list \<Rightarrow> string \<Rightarrow> string \<Rightarrow> (string \<times> string) list \<Rightarrow> account" where
  "create tbl e hashed other =
     \<lparr>id_pk = next_id tbl, email = e, password = hashed, deleted = False, role = None,
      reset_token = None, token_expiry = None, modified = None, other_fields = other\<rparr>"

text \<open>
  Modelled from the spec: the models' \<^verbatim>\<open>toJSON\<close> (\<^verbatim>\<open>src/models\<close> is not among the
  sources), which the controller calls on every account it returns and which
  \<^verbatim>\<open>res.json\<close> calls on an instance: "returns the created profile (password
  excluded)", "user profile (no password field)".
\<close>

definition toJSON :: "'pw row \<Rightarrow> profile" where
  "toJSON a =
     \<lparr>id_pk = id_pk a, email = email a, password = None, deleted = deleted a,
      role = role a, reset_token = reset_token a, token_expiry = token_expiry a,
      modified = modified a, other_fields = other_fields a\<rparr>"

subsection \<open>Strings and bytes\<close>

text \<open>\<^verbatim>\<open>String.prototype.toLowerCase\<close>, on the ASCII letters.\<close>

definition lower_char :: "char \<Rightarrow> char" where
  "lower_char c =
     (let n = (of_char c :: nat) in if 65 \<le> n \<and> n \<le> 90 then char_of (n + 32) else c)"

definition toLowerCase :: "string \<Rightarrow> string" where
  "toLowerCase s = map lower_char s"

text \<open>\<^verbatim>\<open>crypto.randomBytes(n).toString("hex")\<close>.\<close>

definition randomBytes :: "env \<Rightarrow> nat \<Rightarrow> 8 word list" where
  "randomBytes ev n = map (entropy ev) [0..<n]"

definition hex_digit :: "nat \<Rightarrow> char" where
  "hex_digit d = ''0123456789abcdef'' ! d"

definition toString_hex :: "8 word list \<Rightarrow> string" where
  "toString_hex bs = concat (map (\<lambda>b. [hex_digit (unat b div 16), hex_digit (unat b mod 16)]) bs)"

subsection \<open>Registration\<close>

definition registerJobSeeker ::
  "bcrypt \<Rightarrow> config \<Rightarrow> env \<Rightarrow> string \<Rightarrow> string \<Rightarrow> string \<Rightarrow> (string \<times> string) list \<Rightarrow> db
     \<Rightarrow> (error + response) \<times> db" where
  "registerJobSeeker bc cfg ev name e pw otherData db =
     (let existingJobSeeker = findOne (\<lambda>a. email a = e) (db JobSeeker);
          existingEmployer = findOne (\<lambda>a. email a = e) (db Employer);
          existingAdmin = findOne (\<lambda>a. email a = e) (db Admin)
      in if existingJobSeeker \<noteq> None \<or> existingEmployer \<noteq> None \<or> existingAdmin \<noteq> None
         then (Inl (BadRequestError ''Email is already registered''), db)
         else
           let salt = bcrypt_genSalt bc 10 (salt_seed ev);
               hashedPassword = bcrypt_hash bc pw salt;
               jobSeeker = create (db JobSeeker) e hashedPassword ((''name'', name) # otherData);
               tok = generateToken cfg jobSeeker ''jobSeeker''
           in (Inr \<lparr>status = 201, body = RegisterData (toJSON jobSeeker) tok\<rparr>,
               db(JobSeeker := db JobSeeker @ [jobSeeker])))"

definition registerEmployer ::
  "bcrypt \<Rightarrow> config \<Rightarrow> env \<Rightarrow> string \<Rightarrow> string \<Rightarrow> string \<Rightarrow> (string \<times> string) list \<Rightarrow> db
     \<Rightarrow> (error + response) \<times> db" where
  "registerEmployer bc cfg ev clinic_name e pw otherData db =
     (let existingJobSeeker = findOne (\<lambda>a. email a = e) (db JobSeeker);
          existingEmployer = findOne (\<lambda>a. email a = e) (db Employer);
          existingAdmin = findOne (\<lambda>a. email a = e) (db Admin)
      in if existingJobSeeker \<noteq> None \<or> existingEmployer \<noteq> None \<or> existingAdmin \<noteq> None
         then (Inl (BadRequestError ''Email is already registered''), db)
         else
           let salt = bcrypt_genSalt bc 10 (salt_seed ev);
               hashedPassword = bcrypt_hash bc pw salt;
               employer = create (db Employer) e hashedPassword
                            ((''clinic_name'', clinic_name) # otherData);
               tok = generateToken cfg employer ''employer''
           in (Inr \<lparr>status = 201, body = RegisterData (toJSON employer) tok\<rparr>,
               db(Employer := db Employer @ [employer])))"

subsection \<open>Login\<close>

text \<open>The logins read the store and never write it, so they return the outcome only.\<close>

definition loginJobSeeker :: "bcrypt \<Rightarrow> config \<Rightarrow> string \<Rightarrow> string \<Rightarrow> db \<Rightarrow> error + response" where
  "loginJobSeeker bc cfg e pw db =
     (case findOne (\<lambda>a. email a = e) (db JobSeeker) of
        None \<Rightarrow> Inl (UnauthorizedError ''Invalid credentials'')
      | Some jobSeeker \<Rightarrow>
          if deleted jobSeeker then Inl (UnauthorizedError ''Account deactivated'')
          else if \<not> bcrypt_compare bc pw (password jobSeeker)
          then Inl (UnauthorizedError ''Invalid credentials'')
          else Inr \<lparr>status = 200,
                    body = LoginData (Some ''JobSeeker'') (toJSON jobSeeker)
                             (generateToken cfg jobSeeker ''jobseeker'')\<rparr>)"

definition loginEmployer :: "bcrypt \<Rightarrow> config \<Rightarrow> string \<Rightarrow> string \<Rightarrow> db \<Rightarrow> error + response" where
  "loginEmployer bc cfg e pw db =
     (case findOne (\<lambda>a. email a = e) (db Employer) of
        None \<Rightarrow> Inl (UnauthorizedError ''Invalid credentials'')
      | Some employer \<Rightarrow>
          if deleted employer then Inl (UnauthorizedError ''Account deactivated'')
          else if \<not> bcrypt_compare bc pw (password employer)
          then Inl (UnauthorizedError ''Invalid credentials'')
          else Inr \<lparr>status = 200,
                    body = LoginData (Some ''Employer'') (toJSON employer)
                             (generateToken cfg employer ''employer'')\<rparr>)"

definition loginAdmin :: "bcrypt \<Rightarrow> config \<Rightarrow> string \<Rightarrow> string \<Rightarrow> db \<Rightarrow> error + response" where
  "loginAdmin bc cfg e pw db =
     (case findOne (\<lambda>a. email a = e) (db Admin) of
        None \<Rightarrow> Inl (UnauthorizedError ''Invalid credentials'')
      | Some admin \<Rightarrow>
          if \<not> bcrypt_compare bc pw (password admin)
          then Inl (UnauthorizedError ''Invalid credentials'')
          else Inr \<lparr>status = 200,
                    body = LoginData (role (toJSON admin)) (toJSON admin)
                             (generateToken cfg admin ''admin'')\<rparr>)"

text \<open>\<^verbatim>\<open>user.role || 'Admin'\<close>: a missing or empty role is falsy.\<close>

definition role_or_Admin :: "account \<Rightarrow> string" where
  "role_or_Admin user =
     (case role user of None \<Rightarrow> ''Admin'' | Some r \<Rightarrow> if r = [] then ''Admin'' else r)"

text \<open>The end of \<^verbatim>\<open>unifiedLogin\<close>, reached with the account found and its role.\<close>

definition unified_response :: "config \<Rightarrow> account \<Rightarrow> string \<Rightarrow> response" where
  "unified_response cfg user rl =
     \<lparr>status = 200,
      body = LoginData (Some rl) (toJSON user) (generateToken cfg user (toLowerCase rl))\<rparr>"

definition unifiedLogin :: "bcrypt \<Rightarrow> config \<Rightarrow> string \<Rightarrow> string \<Rightarrow> db \<Rightarrow> error + response" where
  "unifiedLogin bc cfg e pw db =
     (case findOne (\<lambda>a. email a = e) (db JobSeeker) of
        Some user \<Rightarrow>
          if deleted user then Inl (UnauthorizedError ''Account deactivated'')
          else if \<not> bcrypt_compare bc pw (password user)
          then Inl (UnauthorizedError ''Invalid credentials'')
          else Inr (unified_response cfg user ''JobSeeker'')
      | None \<Rightarrow>
         (case findOne (\<lambda>a. email a = e) (db Employer) of
            Some user \<Rightarrow>
              if deleted user then Inl (UnauthorizedError ''Account deactivated'')
              else if \<not> bcrypt_compare bc pw (password user)
              then Inl (UnauthorizedError ''Invalid credentials'')
              else Inr (unified_response cfg user ''Employer'')
          | None \<Rightarrow>
             (case findOne (\<lambda>a. email a = e) (db Admin) of
                Some user \<Rightarrow>
                  if \<not> bcrypt_compare bc pw (password user)
                  then Inl (UnauthorizedError ''Invalid credentials'')
                  else Inr (unified_response cfg user (role_or_Admin user))
              | None \<Rightarrow> Inl (UnauthorizedError ''Invalid credentials''))))"

subsection \<open>The authenticated handlers\<close>

text \<open>
  \<^verbatim>\<open>switch (role)\<close> of \<^verbatim>\<open>getCurrentUser\<close> and \<^verbatim>\<open>changePassword\<close>: the model of
  a role tag, \<open>None\<close> in the \<^verbatim>\<open>default\<close> branch.
\<close>

definition model_of_role :: "string \<Rightarrow> model option" where
  "model_of_role rl =
     (if rl = ''admin'' then Some Admin
      else if rl = ''employer'' then Some Employer
      else if rl = ''jobSeeker'' then Some JobSeeker
      else None)"

text \<open>
  The instance each branch loads: \<^verbatim>\<open>Admin.findByPk(id)\<close> with every attribute, the
  other two with \<^verbatim>\<open>attributes: { exclude: ['password'] }\<close>. \<^verbatim>\<open>res.json\<close> then
  serialises the instance with its \<^verbatim>\<open>toJSON\<close>.
\<close>

definition load_current :: "model \<Rightarrow> nat \<Rightarrow> db \<Rightarrow> profile option" where
  "load_current m i db =
     (case m of
        Admin \<Rightarrow> map_option attributes (findByPk i (db Admin))
      | Employer \<Rightarrow> map_option (exclude_password \<circ> attributes) (findByPk i (db Employer))
      | JobSeeker \<Rightarrow> map_option (exclude_password \<circ> attributes) (findByPk i (db JobSeeker)))"

definition getCurrentUser :: "claims \<Rightarrow> db \<Rightarrow> error + response" where
  "getCurrentUser req_user db =
     (case model_of_role (claim_role req_user) of
        None \<Rightarrow> Inl (UnauthorizedError ''Invalid role'')
      | Some m \<Rightarrow>
         (case load_current m (claim_id req_user) db of
            None \<Rightarrow> Inl (NotFoundError ''User not found'')
          | Some user \<Rightarrow> Inr \<lparr>status = 200, body = UserData (toJSON user)\<rparr>))"

definition changePassword ::
  "bcrypt \<Rightarrow> env \<Rightarrow> claims \<Rightarrow> string \<Rightarrow> string \<Rightarrow> db \<Rightarrow> (error + response) \<times> db" where
  "changePassword bc ev req_user currentPassword newPassword db =
     (case model_of_role (claim_role req_user) of
        None \<Rightarrow> (Inl (UnauthorizedError ''Invalid role''), db)
      | Some m \<Rightarrow>
         (case findByPk (claim_id req_user) (db m) of
            None \<Rightarrow> (Inl (NotFoundError ''User not found''), db)
          | Some user \<Rightarrow>
              if \<not> bcrypt_compare bc currentPassword (password user)
              then (Inl (UnauthorizedError ''Current password is incorrect''), db)
              else
                let salt = bcrypt_genSalt bc 10 (salt_seed ev);
                    hashedPassword = bcrypt_hash bc newPassword salt;
                    user' = user\<lparr>password := hashedPassword, modified := Some (now ev)\<rparr>
                in (Inr \<lparr>status = 200, body = Message True ''Password updated successfully''\<rparr>,
                    db(m := save user' (db m)))))"

subsection \<open>Password reset\<close>

text \<open>\<^verbatim>\<open>const Model = role === "employer" ? Employer : JobSeeker\<close>, in both handlers.\<close>

definition reset_Model :: "string \<Rightarrow> model" where
  "reset_Model rl = (if rl = ''employer'' then Employer else JobSeeker)"

text \<open>
  \<^verbatim>\<open>requestPasswordReset\<close> also returns the mails the transport accepted. The call
  \<^verbatim>\<open>transporter.verify\<close> only logs from its callback and is left out;
  \<^verbatim>\<open>await transporter.sendMail\<close> stands inside the \<^verbatim>\<open>try\<close>, so its rejection
  reaches \<^verbatim>\<open>next\<close>.
\<close>

definition requestPasswordReset ::
  "env \<Rightarrow> string \<Rightarrow> string \<Rightarrow> db \<Rightarrow> (error + response) \<times> db \<times> mail list" where
  "requestPasswordReset ev e rl db =
     (let Model = reset_Model rl in
      case findOne (\<lambda>a. email a = e) (db Model) of
        None \<Rightarrow> (Inr \<lparr>status = 404, body = Message False ''Email not found''\<rparr>, db, [])
      | Some user \<Rightarrow>
          let resetToken = toString_hex (randomBytes ev 32);
              user' = user\<lparr>reset_token := Some resetToken,
                           token_expiry := Some (now ev + 15 * 60 * 1000)\<rparr>;
              db' = db(Model := save user' (db Model));
              resetLink = ''https://reuse-tenshoku.com/reset-password?token='' @ resetToken
                            @ ''&role='' @ rl
          in (case sendMail_error ev of
                Some err \<Rightarrow> (Inl (TransportError err), db', [])
              | None \<Rightarrow>
                  (Inr \<lparr>status = 200, body = Message True ''Reset email sent!''\<rparr>, db',
                   [\<lparr>mail_to = e, mail_link = resetLink\<rparr>])))"

text \<open>
  The \<^verbatim>\<open>where\<close> clause of \<^verbatim>\<open>resetPassword\<close>:
  \<^verbatim>\<open>{ reset_token: token, token_expiry: { [Op.gt]: new Date() } }\<close>.
\<close>

definition token_valid :: "string \<Rightarrow> int \<Rightarrow> account \<Rightarrow> bool" where
  "token_valid tok t a =
     (reset_token a = Some tok \<and> (case token_expiry a of None \<Rightarrow> False | Some x \<Rightarrow> t < x))"

text \<open>
  \<^verbatim>\<open>bcrypt.hash(newPassword, 10)\<close>: given a number of rounds, bcryptjs generates the
  salt itself and hashes with it.
\<close>

definition resetPassword ::
  "bcrypt \<Rightarrow> env \<Rightarrow> string \<Rightarrow> string \<Rightarrow> string \<Rightarrow> db \<Rightarrow> (error + response) \<times> db" where
  "resetPassword bc ev tok rl newPassword db =
     (let Model = reset_Model rl in
      case findOne (token_valid tok (now ev)) (db Model) of
        None \<Rightarrow> (Inr \<lparr>status = 400, body = Message False ''Invalid or expired token''\<rparr>, db)
      | Some user \<Rightarrow>
          let user' = user\<lparr>password := bcrypt_hash bc newPassword
                                         (bcrypt_genSalt bc 10 (salt_seed ev)),
                           reset_token := None, token_expiry := None\<rparr>
          in (Inr \<lparr>status = 200, body = Message True ''Password reset successful!''\<rparr>,
              db(Model := save user' (db Model))))"

subsection \<open>Example data\<close>

text \<open>
  A small instance on which the theorems below are exercised: a toy hasher that keeps
  the salt in front of the password, and a store with one administrator, one employer
  and two job seekers, the second one soft-deleted.
\<close>

definition demo_bcrypt :: bcrypt where
  "demo_bcrypt =
     \<lparr>bcrypt_genSalt = (\<lambda>rounds seed. seed),
      bcrypt_hash = (\<lambda>pw salt. CHR ''$'' # salt @ CHR ''$'' # pw),
      bcrypt_compare = (\<lambda>pw h. case h of [] \<Rightarrow> False
                           | c # cs \<Rightarrow> c = CHR ''$'' \<and> tl (dropWhile (\<lambda>x. x \<noteq> CHR ''$'') cs) = pw)\<rparr>"

definition demo_cfg :: config where
  "demo_cfg = \<lparr>JWT_EXPIRATION = None\<rparr>"

definition demo_env :: env where
  "demo_env = \<lparr>now = 1000, salt_seed = ''s9'', entropy = (\<lambda>i. 171), sendMail_error = None\<rparr>"

definition demo_account :: "nat \<Rightarrow> string \<Rightarrow> string \<Rightarrow> bool \<Rightarrow> account" where
  "demo_account i e pw del =
     \<lparr>id_pk = i, email = e, password = bcrypt_hash demo_bcrypt pw ''s0'', deleted = del,
      role = None, reset_token = None, token_expiry = None, modified = None, other_fields = []\<rparr>"

definition demo_db :: db where
  "demo_db m =
     (case m of
        Admin \<Rightarrow> [demo_account 1 ''root@x.com'' ''pw0'' True]
      | Employer \<Rightarrow> [demo_account 1 ''c@x.com'' ''pw2'' False]
      | JobSeeker \<Rightarrow> [demo_account 1 ''a@x.com'' ''pw1'' False,
                       demo_account 2 ''gone@x.com'' ''pw3'' True])"

definition demo_new_account :: "nat \<Rightarrow> string \<Rightarrow> string \<Rightarrow> string \<Rightarrow> account" where
  "demo_new_account i e k v =
     \<lparr>id_pk = i, email = e, password = ''$s9$pw7'', deleted = False, role = None,
      reset_token = None, token_expiry = None, modified = None, other_fields = [(k, v)]\<rparr>"

definition demo_identity :: "nat \<Rightarrow> string \<Rightarrow> claims" where
  "demo_identity i rl = \<lparr>claim_id = i, claim_email = ''a@x.com'', claim_role = rl\<rparr>"

definition demo_env_mail_down :: env where
  "demo_env_mail_down = demo_env\<lparr>sendMail_error := Some ''ECONNREFUSED''\<rparr>"

definition demo_reset_token :: string where
  "demo_reset_token = ''abababababababababababababababababababababababababababababababab''"

definition demo_db_reset :: db where
  "demo_db_reset =
     demo_db(JobSeeker :=
       [(demo_account 1 ''a@x.com'' ''pw1'' False)
          \<lparr>reset_token := Some demo_reset_token, token_expiry := Some 901000\<rparr>,
        demo_account 2 ''gone@x.com'' ''pw3'' True])"

definition demo_db_consumed :: db where
  "demo_db_consumed =
     demo_db(JobSeeker :=
       [(demo_account 1 ''a@x.com'' ''pw1'' False)\<lparr>password := ''$s9$pw8''\<rparr>,
        demo_account 2 ''gone@x.com'' ''pw3'' True])"

definition demo_db_shared :: db where
  "demo_db_shared =
     demo_db(JobSeeker :=
       [(demo_account 1 ''a@x.com'' ''pw1'' False)
          \<lparr>reset_token := Some demo_reset_token, token_expiry := Some 901000\<rparr>,
        (demo_account 3 ''b@x.com'' ''pw4'' False)
          \<lparr>reset_token := Some demo_reset_token, token_expiry := Some 901000\<rparr>])"

section \<open>Properties\<close>

subsection \<open>Lookups and fresh keys\<close>

lemma fold_max_ge0: "k \<le> fold max xs (k::nat)"
  by (induction xs arbitrary: k) (auto intro: order_trans[OF max.cobounded2])

lemma fold_max_ge: "x \<in> set xs \<Longrightarrow> x \<le> fold max xs (k::nat)"
proof (induction xs arbitrary: k)
  case Nil
  then show ?case by simp
next
  case (Cons y ys)
  show ?case
  proof (cases "x = y")
    case True
    have "y \<le> max y k" by simp
    also have "\<dots> \<le> fold max ys (max y k)" by (rule fold_max_ge0)
    finally show ?thesis using True by simp
  next
    case False
    with Cons show ?thesis by simp
  qed
qed

lemma next_id_fresh: "a \<in> set tbl \<Longrightarrow> id_pk a < next_id tbl"
  unfolding next_id_def using fold_max_ge [of "id_pk a" "map id_pk tbl" 0] by auto

lemma findOne_None_iff: "findOne wh tbl = None \<longleftrightarrow> (\<forall>a\<in>set tbl. \<not> wh a)"
  by (auto simp: findOne_def find_None_iff)

lemma findOne_SomeD: "findOne wh tbl = Some a \<Longrightarrow> a \<in> set tbl \<and> wh a"
  by (auto simp: findOne_def find_Some_iff)

lemma findByPk_None_iff: "findByPk i tbl = None \<longleftrightarrow> (\<forall>a\<in>set tbl. id_pk a \<noteq> i)"
  by (auto simp: findByPk_def find_None_iff)

lemma findByPk_SomeD: "findByPk i tbl = Some a \<Longrightarrow> a \<in> set tbl \<and> id_pk a = i"
  by (auto simp: findByPk_def find_Some_iff)

lemma findOne_Some_ex: "(\<exists>a\<in>set tbl. wh a) \<Longrightarrow> \<exists>u. findOne wh tbl = Some u"
  using findOne_None_iff [of wh tbl] by (cases "findOne wh tbl") auto

lemma create_fresh: "id_pk (create tbl e h other) \<notin> id_pk ` set tbl"
proof
  assume "id_pk (create tbl e h other) \<in> id_pk ` set tbl"
  then obtain b where "b \<in> set tbl" "id_pk b = next_id tbl"
    by (auto simp: create_def)
  then show False using next_id_fresh [of b tbl] by simp
qed

lemma create_fields:
  "email (create tbl e h other) = e" "password (create tbl e h other) = h"
  "deleted (create tbl e h other) = False" "reset_token (create tbl e h other) = None"
  "token_expiry (create tbl e h other) = None"
  by (simp_all add: create_def)

lemma payload_generateToken:
  "payload (generateToken cfg u rl) = \<lparr>claim_id = id_pk u, claim_email = email u, claim_role = rl\<rparr>"
  by (simp add: generateToken_def)

lemma toJSON_password: "password (toJSON a) = None"
  by (simp add: toJSON_def)

lemma toLowerCase_JobSeeker: "toLowerCase ''JobSeeker'' = ''jobseeker''"
  by code_simp

lemma toLowerCase_Employer: "toLowerCase ''Employer'' = ''employer''"
  by code_simp

lemma demo_hash_not_identity: "bcrypt_hash demo_bcrypt p s \<noteq> p"
proof
  assume "bcrypt_hash demo_bcrypt p s = p"
  then have "length (bcrypt_hash demo_bcrypt p s) = length p" by simp
  then show False by (simp add: demo_bcrypt_def)
qed

subsection \<open>Registration\<close>

text \<open>
  Claim C3. Whenever some account of any of the three models, soft-deleted or not,
  already has the email, both \<^verbatim>\<open>registerJobSeeker\<close> and \<^verbatim>\<open>registerEmployer\<close> throw
  \<open>BadRequestError\<close> and leave the store as it was: no row is created.
\<close>

theorem register_known_email_rejected:
  "(\<exists>m. \<exists>a\<in>set (db m). email a = e) \<longrightarrow>
     registerJobSeeker bc cfg ev name e pw otherData db
       = (Inl (BadRequestError ''Email is already registered''), db) \<and>
     registerEmployer bc cfg ev clinic_name e pw otherData db
       = (Inl (BadRequestError ''Email is already registered''), db)"
proof
  assume "\<exists>m. \<exists>a\<in>set (db m). email a = e"
  then obtain m a where a: "a \<in> set (db m)" "email a = e" by blast
  have "findOne (\<lambda>a. email a = e) (db m) \<noteq> None"
    using a by (auto simp: findOne_None_iff)
  then have "findOne (\<lambda>a. email a = e) (db JobSeeker) \<noteq> None
      \<or> findOne (\<lambda>a. email a = e) (db Employer) \<noteq> None
      \<or> findOne (\<lambda>a. email a = e) (db Admin) \<noteq> None"
    by (cases m) auto
  then show "registerJobSeeker bc cfg ev name e pw otherData db
       = (Inl (BadRequestError ''Email is already registered''), db) \<and>
     registerEmployer bc cfg ev clinic_name e pw otherData db
       = (Inl (BadRequestError ''Email is already registered''), db)"
    by (simp add: registerJobSeeker_def registerEmployer_def Let_def)
qed

theorem register_known_email_rejected_witness:
  "(\<exists>m. \<exists>a\<in>set (demo_db m). email a = ''gone@x.com'') \<and>
   registerJobSeeker demo_bcrypt demo_cfg demo_env ''n'' ''gone@x.com'' ''pw9'' [] demo_db
     = (Inl (BadRequestError ''Email is already registered''), demo_db) \<and>
   (\<exists>m. \<exists>a\<in>set (demo_db m). email a = ''root@x.com'') \<and>
   registerEmployer demo_bcrypt demo_cfg demo_env ''n'' ''root@x.com'' ''pw9'' [] demo_db
     = (Inl (BadRequestError ''Email is already registered''), demo_db)"
proof -
  have h1: "\<exists>m. \<exists>a\<in>set (demo_db m). email a = ''gone@x.com''"
    by (rule exI [of _ JobSeeker]) (simp add: demo_db_def demo_account_def)
  have h2: "\<exists>m. \<exists>a\<in>set (demo_db m). email a = ''root@x.com''"
    by (rule exI [of _ Admin]) (simp add: demo_db_def demo_account_def)
  show ?thesis
    using h1 h2
      register_known_email_rejected [of demo_db "''gone@x.com''" demo_bcrypt demo_cfg demo_env
        "''n''" "''pw9''" "[]" "''n''"]
      register_known_email_rejected [of demo_db "''root@x.com''" demo_bcrypt demo_cfg demo_env
        "''n''" "''pw9''" "[]" "''n''"]
    by blast
qed

text \<open>
  Claim C4. A registration that succeeds answers 201 with the created account as
  \<^verbatim>\<open>toJSON\<close> serialises it, which has no password, and a token generated in this
  request for the created row (its id, its email, the role tag of the endpoint). The row
  appended to the model's table has a primary key no earlier row has, and its password is
  \<^verbatim>\<open>bcrypt.hash\<close> of the cleartext under the salt \<^verbatim>\<open>bcrypt.genSalt(10)\<close> drew in
  this request; it differs from the cleartext whenever the hasher never returns its input.
\<close>

theorem register_success:
  "(registerJobSeeker bc cfg ev name e pw otherData db = (Inr r, db') \<longrightarrow>
      (\<exists>jobSeeker.
         status r = 201 \<and>
         body r = RegisterData (toJSON jobSeeker) (generateToken cfg jobSeeker ''jobSeeker'') \<and>
         password (toJSON jobSeeker) = None \<and>
         payload (generateToken cfg jobSeeker ''jobSeeker'')
           = \<lparr>claim_id = id_pk jobSeeker, claim_email = e, claim_role = ''jobSeeker''\<rparr> \<and>
         db' = db(JobSeeker := db JobSeeker @ [jobSeeker]) \<and>
         id_pk jobSeeker \<notin> id_pk ` set (db JobSeeker) \<and>
         email jobSeeker = e \<and>
         password jobSeeker = bcrypt_hash bc pw (bcrypt_genSalt bc 10 (salt_seed ev)) \<and>
         ((\<forall>p s. bcrypt_hash bc p s \<noteq> p) \<longrightarrow> password jobSeeker \<noteq> pw))) \<and>
   (registerEmployer bc cfg ev clinic_name e pw otherData db = (Inr r, db') \<longrightarrow>
      (\<exists>employer.
         status r = 201 \<and>
         body r = RegisterData (toJSON employer) (generateToken cfg employer ''employer'') \<and>
         password (toJSON employer) = None \<and>
         payload (generateToken cfg employer ''employer'')
           = \<lparr>claim_id = id_pk employer, claim_email = e, claim_role = ''employer''\<rparr> \<and>
         db' = db(Employer := db Employer @ [employer]) \<and>
         id_pk employer \<notin> id_pk ` set (db Employer) \<and>
         email employer = e \<and>
         password employer = bcrypt_hash bc pw (bcrypt_genSalt bc 10 (salt_seed ev)) \<and>
         ((\<forall>p s. bcrypt_hash bc p s \<noteq> p) \<longrightarrow> password employer \<noteq> pw)))"
proof (intro conjI impI)
  assume ok: "registerJobSeeker bc cfg ev name e pw otherData db = (Inr r, db')"
  define row where
    "row = create (db JobSeeker) e (bcrypt_hash bc pw (bcrypt_genSalt bc 10 (salt_seed ev)))
             ((''name'', name) # otherData)"
  from ok have r: "r = \<lparr>status = 201, body = RegisterData (toJSON row) (generateToken cfg row ''jobSeeker'')\<rparr>"
    and d: "db' = db(JobSeeker := db JobSeeker @ [row])"
    by (auto simp: registerJobSeeker_def Let_def row_def split: if_splits)
  have fresh: "id_pk row \<notin> id_pk ` set (db JobSeeker)"
    unfolding row_def by (rule create_fresh)
  show "\<exists>jobSeeker.
         status r = 201 \<and>
         body r = RegisterData (toJSON jobSeeker) (generateToken cfg jobSeeker ''jobSeeker'') \<and>
         password (toJSON jobSeeker) = None \<and>
         payload (generateToken cfg jobSeeker ''jobSeeker'')
           = \<lparr>claim_id = id_pk jobSeeker, claim_email = e, claim_role = ''jobSeeker''\<rparr> \<and>
         db' = db(JobSeeker := db JobSeeker @ [jobSeeker]) \<and>
         id_pk jobSeeker \<notin> id_pk ` set (db JobSeeker) \<and>
         email jobSeeker = e \<and>
         password jobSeeker = bcrypt_hash bc pw (bcrypt_genSalt bc 10 (salt_seed ev)) \<and>
         ((\<forall>p s. bcrypt_hash bc p s \<noteq> p) \<longrightarrow> password jobSeeker \<noteq> pw)"
    using r d fresh
    by (intro exI [of _ row]) (simp add: toJSON_password payload_generateToken row_def create_fields)
next
  assume ok: "registerEmployer bc cfg ev clinic_name e pw otherData db = (Inr r, db')"
  define row where
    "row = create (db Employer) e (bcrypt_hash bc pw (bcrypt_genSalt bc 10 (salt_seed ev)))
             ((''clinic_name'', clinic_name) # otherData)"
  from ok have r: "r = \<lparr>status = 201, body = RegisterData (toJSON row) (generateToken cfg row ''employer'')\<rparr>"
    and d: "db' = db(Employer := db Employer @ [row])"
    by (auto simp: registerEmployer_def Let_def row_def split: if_splits)
  have fresh: "id_pk row \<notin> id_pk ` set (db Employer)"
    unfolding row_def by (rule create_fresh)
  show "\<exists>employer.
         status r = 201 \<and>
         body r = RegisterData (toJSON employer) (generateToken cfg employer ''employer'') \<and>
         password (toJSON employer) = None \<and>
         payload (generateToken cfg employer ''employer'')
           = \<lparr>claim_id = id_pk employer, claim_email = e, claim_role = ''employer''\<rparr> \<and>
         db' = db(Employer := db Employer @ [employer]) \<and>
         id_pk employer \<notin> id_pk ` set (db Employer) \<and>
         email employer = e \<and>
         password employer = bcrypt_hash bc pw (bcrypt_genSalt bc 10 (salt_seed ev)) \<and>
         ((\<forall>p s. bcrypt_hash bc p s \<noteq> p) \<longrightarrow> password employer \<noteq> pw)"
    using r d fresh
    by (intro exI [of _ row]) (simp add: toJSON_password payload_generateToken row_def create_fields)
qed

theorem register_success_witness:
  "registerJobSeeker demo_bcrypt demo_cfg demo_env ''Aki'' ''new@x.com'' ''pw7'' [] demo_db
     = (Inr \<lparr>status = 201,
             body = RegisterData (toJSON (demo_new_account 3 ''new@x.com'' ''name'' ''Aki''))
                      (generateToken demo_cfg (demo_new_account 3 ''new@x.com'' ''name'' ''Aki'')
                         ''jobSeeker'')\<rparr>,
        demo_db(JobSeeker := demo_db JobSeeker @ [demo_new_account 3 ''new@x.com'' ''name'' ''Aki''])) \<and>
   (\<forall>p s. bcrypt_hash demo_bcrypt p s \<noteq> p) \<and>
   (\<exists>jobSeeker.
      demo_db(JobSeeker := demo_db JobSeeker @ [demo_new_account 3 ''new@x.com'' ''name'' ''Aki''])
        = demo_db(JobSeeker := demo_db JobSeeker @ [jobSeeker]) \<and>
      password jobSeeker = ''$s9$pw7'' \<and> password jobSeeker \<noteq> ''pw7'' \<and>
      password (toJSON jobSeeker) = None) \<and>
   registerEmployer demo_bcrypt demo_cfg demo_env ''Clinic'' ''new@x.com'' ''pw7'' [] demo_db
     = (Inr \<lparr>status = 201,
             body = RegisterData (toJSON (demo_new_account 2 ''new@x.com'' ''clinic_name'' ''Clinic''))
                      (generateToken demo_cfg
                         (demo_new_account 2 ''new@x.com'' ''clinic_name'' ''Clinic'') ''employer'')\<rparr>,
        demo_db(Employer := demo_db Employer
                   @ [demo_new_account 2 ''new@x.com'' ''clinic_name'' ''Clinic''])) \<and>
   (\<exists>employer.
      demo_db(Employer := demo_db Employer
                   @ [demo_new_account 2 ''new@x.com'' ''clinic_name'' ''Clinic''])
        = demo_db(Employer := demo_db Employer @ [employer]) \<and>
      password employer = ''$s9$pw7'' \<and> password employer \<noteq> ''pw7'' \<and>
      password (toJSON employer) = None)"
proof -
  have h1: "registerJobSeeker demo_bcrypt demo_cfg demo_env ''Aki'' ''new@x.com'' ''pw7'' [] demo_db
     = (Inr \<lparr>status = 201,
             body = RegisterData (toJSON (demo_new_account 3 ''new@x.com'' ''name'' ''Aki''))
                      (generateToken demo_cfg (demo_new_account 3 ''new@x.com'' ''name'' ''Aki'')
                         ''jobSeeker'')\<rparr>,
        demo_db(JobSeeker := demo_db JobSeeker @ [demo_new_account 3 ''new@x.com'' ''name'' ''Aki'']))"
    by (simp add: registerJobSeeker_def findOne_def demo_db_def demo_account_def create_def
        next_id_def demo_new_account_def demo_bcrypt_def demo_env_def Let_def eval_nat_numeral)
  have h2: "registerEmployer demo_bcrypt demo_cfg demo_env ''Clinic'' ''new@x.com'' ''pw7'' [] demo_db
     = (Inr \<lparr>status = 201,
             body = RegisterData (toJSON (demo_new_account 2 ''new@x.com'' ''clinic_name'' ''Clinic''))
                      (generateToken demo_cfg
                         (demo_new_account 2 ''new@x.com'' ''clinic_name'' ''Clinic'') ''employer'')\<rparr>,
        demo_db(Employer := demo_db Employer
                   @ [demo_new_account 2 ''new@x.com'' ''clinic_name'' ''Clinic'']))"
    by (simp add: registerEmployer_def findOne_def demo_db_def demo_account_def create_def
        next_id_def demo_new_account_def demo_bcrypt_def demo_env_def Let_def eval_nat_numeral)
  have h3: "\<forall>p s. bcrypt_hash demo_bcrypt p s \<noteq> p"
    by (simp add: demo_hash_not_identity)
  have salted: "bcrypt_hash demo_bcrypt ''pw7'' (bcrypt_genSalt demo_bcrypt 10 (salt_seed demo_env))
      = ''$s9$pw7''"
    by (simp add: demo_bcrypt_def demo_env_def)
  from register_success [THEN conjunct1, rule_format, OF h1]
  obtain js where js:
    "demo_db(JobSeeker := demo_db JobSeeker @ [demo_new_account 3 ''new@x.com'' ''name'' ''Aki''])
        = demo_db(JobSeeker := demo_db JobSeeker @ [js])"
    "password js = bcrypt_hash demo_bcrypt ''pw7'' (bcrypt_genSalt demo_bcrypt 10 (salt_seed demo_env))"
    "password (toJSON js) = None"
    "(\<forall>p s. bcrypt_hash demo_bcrypt p s \<noteq> p) \<longrightarrow> password js \<noteq> ''pw7''"
    by blast
  have c1: "\<exists>jobSeeker.
      demo_db(JobSeeker := demo_db JobSeeker @ [demo_new_account 3 ''new@x.com'' ''name'' ''Aki''])
        = demo_db(JobSeeker := demo_db JobSeeker @ [jobSeeker]) \<and>
      password jobSeeker = ''$s9$pw7'' \<and> password jobSeeker \<noteq> ''pw7'' \<and>
      password (toJSON jobSeeker) = None"
    using js h3 salted by (intro exI [of _ js]) simp
  from register_success [THEN conjunct2, rule_format, OF h2]
  obtain em where em:
    "demo_db(Employer := demo_db Employer
                   @ [demo_new_account 2 ''new@x.com'' ''clinic_name'' ''Clinic''])
        = demo_db(Employer := demo_db Employer @ [em])"
    "password em = bcrypt_hash demo_bcrypt ''pw7'' (bcrypt_genSalt demo_bcrypt 10 (salt_seed demo_env))"
    "password (toJSON em) = None"
    "(\<forall>p s. bcrypt_hash demo_bcrypt p s \<noteq> p) \<longrightarrow> password em \<noteq> ''pw7''"
    by blast
  have c2: "\<exists>employer.
      demo_db(Employer := demo_db Employer
                   @ [demo_new_account 2 ''new@x.com'' ''clinic_name'' ''Clinic''])
        = demo_db(Employer := demo_db Employer @ [employer]) \<and>
      password employer = ''$s9$pw7'' \<and> password employer \<noteq> ''pw7'' \<and>
      password (toJSON employer) = None"
    using em h3 salted by (intro exI [of _ em]) simp
  show ?thesis using h1 h2 h3 c1 c2 by blast
qed

subsection \<open>Login\<close>

text \<open>
  Claim C1, as amended. Every failure of a per-role login is an \<open>UnauthorizedError\<close>.
  Its message is "Invalid credentials" when no account of the role's model has the email
  and when the password does not verify; \<^verbatim>\<open>loginJobSeeker\<close> and
  \<^verbatim>\<open>loginEmployer\<close> answer a soft-deleted account, before they look at the password,
  with the message "Account deactivated". \<^verbatim>\<open>loginAdmin\<close> does not read the flag.
\<close>

theorem login_failure_messages:
  "(loginJobSeeker bc cfg e pw db = Inl err \<longleftrightarrow>
      (case findOne (\<lambda>a. email a = e) (db JobSeeker) of
         None \<Rightarrow> err = UnauthorizedError ''Invalid credentials''
       | Some a \<Rightarrow>
           if deleted a then err = UnauthorizedError ''Account deactivated''
           else \<not> bcrypt_compare bc pw (password a)
                \<and> err = UnauthorizedError ''Invalid credentials'')) \<and>
   (loginEmployer bc cfg e pw db = Inl err \<longleftrightarrow>
      (case findOne (\<lambda>a. email a = e) (db Employer) of
         None \<Rightarrow> err = UnauthorizedError ''Invalid credentials''
       | Some a \<Rightarrow>
           if deleted a then err = UnauthorizedError ''Account deactivated''
           else \<not> bcrypt_compare bc pw (password a)
                \<and> err = UnauthorizedError ''Invalid credentials'')) \<and>
   (loginAdmin bc cfg e pw db = Inl err \<longleftrightarrow>
      (case findOne (\<lambda>a. email a = e) (db Admin) of
         None \<Rightarrow> err = UnauthorizedError ''Invalid credentials''
       | Some a \<Rightarrow>
           \<not> bcrypt_compare bc pw (password a)
           \<and> err = UnauthorizedError ''Invalid credentials''))"
proof (intro conjI)
  show "loginJobSeeker bc cfg e pw db = Inl err \<longleftrightarrow>
      (case findOne (\<lambda>a. email a = e) (db JobSeeker) of
         None \<Rightarrow> err = UnauthorizedError ''Invalid credentials''
       | Some a \<Rightarrow>
           if deleted a then err = UnauthorizedError ''Account deactivated''
           else \<not> bcrypt_compare bc pw (password a)
                \<and> err = UnauthorizedError ''Invalid credentials'')"
    by (cases "findOne (\<lambda>a. email a = e) (db JobSeeker)")
       (auto simp: loginJobSeeker_def)
  show "loginEmployer bc cfg e pw db = Inl err \<longleftrightarrow>
      (case findOne (\<lambda>a. email a = e) (db Employer) of
         None \<Rightarrow> err = UnauthorizedError ''Invalid credentials''
       | Some a \<Rightarrow>
           if deleted a then err = UnauthorizedError ''Account deactivated''
           else \<not> bcrypt_compare bc pw (password a)
                \<and> err = UnauthorizedError ''Invalid credentials'')"
    by (cases "findOne (\<lambda>a. email a = e) (db Employer)")
       (auto simp: loginEmployer_def)
  show "loginAdmin bc cfg e pw db = Inl err \<longleftrightarrow>
      (case findOne (\<lambda>a. email a = e) (db Admin) of
         None \<Rightarrow> err = UnauthorizedError ''Invalid credentials''
       | Some a \<Rightarrow>
           \<not> bcrypt_compare bc pw (password a)
           \<and> err = UnauthorizedError ''Invalid credentials'')"
    by (cases "findOne (\<lambda>a. email a = e) (db Admin)")
       (auto simp: loginAdmin_def)
qed

theorem login_failure_messages_witness:
  "loginJobSeeker demo_bcrypt demo_cfg ''gone@x.com'' ''pw3'' demo_db
     = Inl (UnauthorizedError ''Account deactivated'') \<and>
   loginEmployer demo_bcrypt demo_cfg ''c@x.com'' ''bad'' demo_db
     = Inl (UnauthorizedError ''Invalid credentials'') \<and>
   loginAdmin demo_bcrypt demo_cfg ''nobody@x.com'' ''pw0'' demo_db
     = Inl (UnauthorizedError ''Invalid credentials'')"
  using
    login_failure_messages [of demo_bcrypt demo_cfg "''gone@x.com''" "''pw3''" demo_db
      "UnauthorizedError ''Account deactivated''"]
    login_failure_messages [of demo_bcrypt demo_cfg "''c@x.com''" "''bad''" demo_db
      "UnauthorizedError ''Invalid credentials''"]
    login_failure_messages [of demo_bcrypt demo_cfg "''nobody@x.com''" "''pw0''" demo_db
      "UnauthorizedError ''Invalid credentials''"]
  by (simp add: findOne_def demo_db_def demo_account_def demo_bcrypt_def)

text \<open>
  Claim C1 as stated fails: a soft-deleted job seeker is told "Account deactivated",
  an unknown email "Invalid credentials".
\<close>

theorem login_deactivated_counterexample:
  "loginJobSeeker demo_bcrypt demo_cfg ''gone@x.com'' ''pw3'' demo_db
     = Inl (UnauthorizedError ''Account deactivated'') \<and>
   loginJobSeeker demo_bcrypt demo_cfg ''nobody@x.com'' ''pw3'' demo_db
     = Inl (UnauthorizedError ''Invalid credentials'') \<and>
   UnauthorizedError ''Account deactivated'' \<noteq> UnauthorizedError ''Invalid credentials''"
  by (simp add: loginJobSeeker_def findOne_def demo_db_def demo_account_def)

lemma unifiedLogin_JobSeeker:
  assumes "findOne (\<lambda>a. email a = e) (db JobSeeker) = Some u"
  shows "unifiedLogin bc cfg e pw db = loginJobSeeker bc cfg e pw db"
  using assms
  by (simp add: unifiedLogin_def loginJobSeeker_def unified_response_def toLowerCase_JobSeeker)

lemma unifiedLogin_Employer:
  assumes "findOne (\<lambda>a. email a = e) (db JobSeeker) = None"
    and "findOne (\<lambda>a. email a = e) (db Employer) = Some u"
  shows "unifiedLogin bc cfg e pw db = loginEmployer bc cfg e pw db"
  using assms
  by (simp add: unifiedLogin_def loginEmployer_def unified_response_def toLowerCase_Employer)

lemma unifiedLogin_Admin:
  assumes "findOne (\<lambda>a. email a = e) (db JobSeeker) = None"
    and "findOne (\<lambda>a. email a = e) (db Employer) = None"
  shows "unifiedLogin bc cfg e pw db =
     (case findOne (\<lambda>a. email a = e) (db Admin) of
        None \<Rightarrow> Inl (UnauthorizedError ''Invalid credentials'')
      | Some user \<Rightarrow>
          if \<not> bcrypt_compare bc pw (password user)
          then Inl (UnauthorizedError ''Invalid credentials'')
          else Inr (unified_response cfg user (role_or_Admin user)))"
  using assms by (simp add: unifiedLogin_def)

text \<open>
  Claim C2. \<^verbatim>\<open>unifiedLogin\<close> looks the email up in JobSeeker, then Employer, then
  Admin, and the first model that has it decides: with a job seeker of that email it is
  \<^verbatim>\<open>loginJobSeeker\<close> whatever the other two tables hold, otherwise with an employer
  it is \<^verbatim>\<open>loginEmployer\<close>, otherwise with an administrator it fails exactly when
  \<^verbatim>\<open>loginAdmin\<close> fails (no soft-delete check) and returns the role stored on the
  account, "Admin" when there is none. The role returned is that of the model that
  matched. Without a match, and on every failure, it throws \<open>UnauthorizedError\<close>.
\<close>

theorem unifiedLogin_priority:
  "((\<exists>a\<in>set (db JobSeeker). email a = e) \<longrightarrow>
      unifiedLogin bc cfg e pw db = loginJobSeeker bc cfg e pw db \<and>
      (\<forall>r. unifiedLogin bc cfg e pw db = Inr r \<longrightarrow>
         (\<exists>u \<in> set (db JobSeeker). email u = e \<and> body r =
            LoginData (Some ''JobSeeker'') (toJSON u) (generateToken cfg u ''jobseeker'')))) \<and>
   ((\<forall>a\<in>set (db JobSeeker). email a \<noteq> e) \<and> (\<exists>a\<in>set (db Employer). email a = e) \<longrightarrow>
      unifiedLogin bc cfg e pw db = loginEmployer bc cfg e pw db \<and>
      (\<forall>r. unifiedLogin bc cfg e pw db = Inr r \<longrightarrow>
         (\<exists>u \<in> set (db Employer). email u = e \<and> body r =
            LoginData (Some ''Employer'') (toJSON u) (generateToken cfg u ''employer'')))) \<and>
   ((\<forall>a\<in>set (db JobSeeker). email a \<noteq> e) \<and> (\<forall>a\<in>set (db Employer). email a \<noteq> e) \<and>
    (\<exists>a\<in>set (db Admin). email a = e) \<longrightarrow>
      (\<forall>err. unifiedLogin bc cfg e pw db = Inl err \<longleftrightarrow> loginAdmin bc cfg e pw db = Inl err) \<and>
      (\<forall>r. unifiedLogin bc cfg e pw db = Inr r \<longrightarrow>
         (\<exists>u \<in> set (db Admin). email u = e \<and> body r =
            LoginData (Some (case role u of None \<Rightarrow> ''Admin''
                                          | Some x \<Rightarrow> if x = [] then ''Admin'' else x))
              (toJSON u)
              (generateToken cfg u (toLowerCase (case role u of None \<Rightarrow> ''Admin''
                                          | Some x \<Rightarrow> if x = [] then ''Admin'' else x)))))) \<and>
   ((\<forall>a\<in>set (db JobSeeker). email a \<noteq> e) \<and> (\<forall>a\<in>set (db Employer). email a \<noteq> e) \<and>
    (\<forall>a\<in>set (db Admin). email a \<noteq> e) \<longrightarrow>
      unifiedLogin bc cfg e pw db = Inl (UnauthorizedError ''Invalid credentials'')) \<and>
   (\<forall>err. unifiedLogin bc cfg e pw db = Inl err \<longrightarrow> (\<exists>msg. err = UnauthorizedError msg))"
proof (intro conjI impI allI)
  assume "\<exists>a\<in>set (db JobSeeker). email a = e"
  then obtain u where u: "findOne (\<lambda>a. email a = e) (db JobSeeker) = Some u"
    using findOne_Some_ex [of "db JobSeeker" "\<lambda>a. email a = e"] by blast
  show eq: "unifiedLogin bc cfg e pw db = loginJobSeeker bc cfg e pw db"
    by (rule unifiedLogin_JobSeeker [where db=db and e=e, OF u])
  fix r
  assume "unifiedLogin bc cfg e pw db = Inr r"
  then have "loginJobSeeker bc cfg e pw db = Inr r" using eq by simp
  then have "body r = LoginData (Some ''JobSeeker'') (toJSON u) (generateToken cfg u ''jobseeker'')"
    using u by (auto simp: loginJobSeeker_def split: if_splits)
  then show "\<exists>u \<in> set (db JobSeeker). email u = e \<and> body r =
            LoginData (Some ''JobSeeker'') (toJSON u) (generateToken cfg u ''jobseeker'')"
    using findOne_SomeD [OF u] by blast
next
  assume a: "(\<forall>a\<in>set (db JobSeeker). email a \<noteq> e) \<and> (\<exists>a\<in>set (db Employer). email a = e)"
  then have n: "findOne (\<lambda>a. email a = e) (db JobSeeker) = None"
    by (simp add: findOne_None_iff)
  from a obtain u where u: "findOne (\<lambda>a. email a = e) (db Employer) = Some u"
    using findOne_Some_ex [of "db Employer" "\<lambda>a. email a = e"] by blast
  show eq: "unifiedLogin bc cfg e pw db = loginEmployer bc cfg e pw db"
    by (rule unifiedLogin_Employer [where db=db and e=e, OF n u])
  fix r
  assume "unifiedLogin bc cfg e pw db = Inr r"
  then have "loginEmployer bc cfg e pw db = Inr r" using eq by simp
  then have "body r = LoginData (Some ''Employer'') (toJSON u) (generateToken cfg u ''employer'')"
    using u by (auto simp: loginEmployer_def split: if_splits)
  then show "\<exists>u \<in> set (db Employer). email u = e \<and> body r =
            LoginData (Some ''Employer'') (toJSON u) (generateToken cfg u ''employer'')"
    using findOne_SomeD [OF u] by blast
next
  fix err
  assume a: "(\<forall>a\<in>set (db JobSeeker). email a \<noteq> e) \<and> (\<forall>a\<in>set (db Employer). email a \<noteq> e) \<and>
    (\<exists>a\<in>set (db Admin). email a = e)"
  then have n: "findOne (\<lambda>a. email a = e) (db JobSeeker) = None"
    "findOne (\<lambda>a. email a = e) (db Employer) = None"
    by (simp_all add: findOne_None_iff)
  show "unifiedLogin bc cfg e pw db = Inl err \<longleftrightarrow> loginAdmin bc cfg e pw db = Inl err"
    unfolding unifiedLogin_Admin [where db=db and e=e, OF n] loginAdmin_def
    by (auto split: option.splits)
next
  fix r
  assume a: "(\<forall>a\<in>set (db JobSeeker). email a \<noteq> e) \<and> (\<forall>a\<in>set (db Employer). email a \<noteq> e) \<and>
    (\<exists>a\<in>set (db Admin). email a = e)"
  then have n: "findOne (\<lambda>a. email a = e) (db JobSeeker) = None"
    "findOne (\<lambda>a. email a = e) (db Employer) = None"
    by (simp_all add: findOne_None_iff)
  from a obtain u where u: "findOne (\<lambda>a. email a = e) (db Admin) = Some u"
    using findOne_Some_ex [of "db Admin" "\<lambda>a. email a = e"] by blast
  assume "unifiedLogin bc cfg e pw db = Inr r"
  then have "r = unified_response cfg u (role_or_Admin u)"
    unfolding unifiedLogin_Admin [where db=db and e=e, OF n] using u by (auto split: if_splits)
  then have "body r =
            LoginData (Some (case role u of None \<Rightarrow> ''Admin''
                                          | Some x \<Rightarrow> if x = [] then ''Admin'' else x))
              (toJSON u)
              (generateToken cfg u (toLowerCase (case role u of None \<Rightarrow> ''Admin''
                                          | Some x \<Rightarrow> if x = [] then ''Admin'' else x)))"
    by (simp add: unified_response_def role_or_Admin_def)
  then show "\<exists>u \<in> set (db Admin). email u = e \<and> body r =
            LoginData (Some (case role u of None \<Rightarrow> ''Admin''
                                          | Some x \<Rightarrow> if x = [] then ''Admin'' else x))
              (toJSON u)
              (generateToken cfg u (toLowerCase (case role u of None \<Rightarrow> ''Admin''
                                          | Some x \<Rightarrow> if x = [] then ''Admin'' else x)))"
    using findOne_SomeD [OF u] by blast
next
  assume a: "(\<forall>a\<in>set (db JobSeeker). email a \<noteq> e) \<and> (\<forall>a\<in>set (db Employer). email a \<noteq> e) \<and>
    (\<forall>a\<in>set (db Admin). email a \<noteq> e)"
  then have n: "findOne (\<lambda>a. email a = e) (db JobSeeker) = None"
    "findOne (\<lambda>a. email a = e) (db Employer) = None"
    "findOne (\<lambda>a. email a = e) (db Admin) = None"
    by (simp_all add: findOne_None_iff)
  show "unifiedLogin bc cfg e pw db = Inl (UnauthorizedError ''Invalid credentials'')"
    unfolding unifiedLogin_Admin [where db=db and e=e, OF n(1,2)] using n(3) by simp
next
  fix err
  assume "unifiedLogin bc cfg e pw db = Inl err"
  then show "\<exists>msg. err = UnauthorizedError msg"
    by (auto simp: unifiedLogin_def split: option.splits if_splits)
qed

theorem unifiedLogin_priority_witness:
  "unifiedLogin demo_bcrypt demo_cfg ''a@x.com'' ''pw1'' (demo_db(Employer := demo_db JobSeeker))
     = loginJobSeeker demo_bcrypt demo_cfg ''a@x.com'' ''pw1'' (demo_db(Employer := demo_db JobSeeker)) \<and>
   unifiedLogin demo_bcrypt demo_cfg ''c@x.com'' ''pw2'' demo_db
     = loginEmployer demo_bcrypt demo_cfg ''c@x.com'' ''pw2'' demo_db \<and>
   (\<exists>u \<in> set (demo_db Admin). email u = ''root@x.com'' \<and>
      unifiedLogin demo_bcrypt demo_cfg ''root@x.com'' ''pw0'' demo_db
        = Inr \<lparr>status = 200,
               body = LoginData (Some ''Admin'') (toJSON u) (generateToken demo_cfg u ''admin'')\<rparr>) \<and>
   unifiedLogin demo_bcrypt demo_cfg ''nobody@x.com'' ''pw0'' demo_db
     = Inl (UnauthorizedError ''Invalid credentials'')"
proof -
  let ?db1 = "demo_db(Employer := demo_db JobSeeker)"
  have p1: "\<exists>a\<in>set (?db1 JobSeeker). email a = ''a@x.com''"
    by (simp add: demo_db_def demo_account_def)
  have p2: "(\<forall>a\<in>set (demo_db JobSeeker). email a \<noteq> ''c@x.com'')
      \<and> (\<exists>a\<in>set (demo_db Employer). email a = ''c@x.com'')"
    by (simp add: demo_db_def demo_account_def)
  have p3: "(\<forall>a\<in>set (demo_db JobSeeker). email a \<noteq> ''root@x.com'')
      \<and> (\<forall>a\<in>set (demo_db Employer). email a \<noteq> ''root@x.com'')
      \<and> (\<exists>a\<in>set (demo_db Admin). email a = ''root@x.com'')"
    by (simp add: demo_db_def demo_account_def)
  have p4: "(\<forall>a\<in>set (demo_db JobSeeker). email a \<noteq> ''nobody@x.com'')
      \<and> (\<forall>a\<in>set (demo_db Employer). email a \<noteq> ''nobody@x.com'')
      \<and> (\<forall>a\<in>set (demo_db Admin). email a \<noteq> ''nobody@x.com'')"
    by (simp add: demo_db_def demo_account_def)
  note t = unifiedLogin_priority [of _ _ demo_bcrypt demo_cfg]
  have c1: "unifiedLogin demo_bcrypt demo_cfg ''a@x.com'' ''pw1'' ?db1
     = loginJobSeeker demo_bcrypt demo_cfg ''a@x.com'' ''pw1'' ?db1"
    using t [of ?db1 "''a@x.com''" "''pw1''"] p1 by blast
  have c2: "unifiedLogin demo_bcrypt demo_cfg ''c@x.com'' ''pw2'' demo_db
     = loginEmployer demo_bcrypt demo_cfg ''c@x.com'' ''pw2'' demo_db"
    using t [of demo_db "''c@x.com''" "''pw2''"] p2 by blast
  have ok: "\<exists>r. unifiedLogin demo_bcrypt demo_cfg ''root@x.com'' ''pw0'' demo_db = Inr r \<and> status r = 200"
    by (simp add: unifiedLogin_def findOne_def demo_db_def demo_account_def demo_bcrypt_def
        unified_response_def)
  then obtain r where r: "unifiedLogin demo_bcrypt demo_cfg ''root@x.com'' ''pw0'' demo_db = Inr r"
    "status r = 200" by blast
  from t [of demo_db "''root@x.com''" "''pw0''"] p3 r(1)
  obtain u where u: "u \<in> set (demo_db Admin)" "email u = ''root@x.com''"
    "body r = LoginData (Some (case role u of None \<Rightarrow> ''Admin''
                                          | Some x \<Rightarrow> if x = [] then ''Admin'' else x))
              (toJSON u)
              (generateToken demo_cfg u (toLowerCase (case role u of None \<Rightarrow> ''Admin''
                                          | Some x \<Rightarrow> if x = [] then ''Admin'' else x)))"
    by blast
  have la: "toLowerCase ''Admin'' = ''admin''" by code_simp
  from u(1) have "role u = None" by (simp add: demo_db_def demo_account_def)
  with u(3) r have "unifiedLogin demo_bcrypt demo_cfg ''root@x.com'' ''pw0'' demo_db
        = Inr \<lparr>status = 200,
               body = LoginData (Some ''Admin'') (toJSON u) (generateToken demo_cfg u ''admin'')\<rparr>"
    by (cases r) (simp add: la)
  with u have c3: "\<exists>u \<in> set (demo_db Admin). email u = ''root@x.com'' \<and>
      unifiedLogin demo_bcrypt demo_cfg ''root@x.com'' ''pw0'' demo_db
        = Inr \<lparr>status = 200,
               body = LoginData (Some ''Admin'') (toJSON u) (generateToken demo_cfg u ''admin'')\<rparr>"
    by blast
  have c4: "unifiedLogin demo_bcrypt demo_cfg ''nobody@x.com'' ''pw0'' demo_db
     = Inl (UnauthorizedError ''Invalid credentials'')"
    using t [of demo_db "''nobody@x.com''" "''pw0''"] p4 by blast
  show ?thesis using c1 c2 c3 c4 by blast
qed

subsection \<open>The authenticated handlers\<close>

lemma toJSON_exclude_password: "toJSON (exclude_password (attributes a)) = toJSON a"
  by (simp add: toJSON_def exclude_password_def attributes_def)

lemma toJSON_attributes: "toJSON (attributes a) = toJSON a"
  by (simp add: toJSON_def attributes_def)

lemma model_of_role_None_iff:
  "model_of_role rl = None \<longleftrightarrow> rl \<notin> {''admin'', ''employer'', ''jobSeeker''}"
  by (simp add: model_of_role_def)

lemma getCurrentUser_Some:
  "model_of_role (claim_role ru) = Some m \<Longrightarrow>
   getCurrentUser ru db =
     (case findByPk (claim_id ru) (db m) of
        None \<Rightarrow> Inl (NotFoundError ''User not found'')
      | Some a \<Rightarrow> Inr \<lparr>status = 200, body = UserData (toJSON a)\<rparr>)"
  by (cases m; cases "findByPk (claim_id ru) (db m)")
     (simp_all add: getCurrentUser_def load_current_def toJSON_exclude_password toJSON_attributes)

text \<open>
  Claim C7. \<^verbatim>\<open>getCurrentUser\<close> looks the id up by primary key in the model of the role
  tag: Admin for "admin", Employer for "employer", JobSeeker for "jobSeeker". Without a
  row of that id it throws \<open>NotFoundError\<close>; with any other tag it throws
  \<open>UnauthorizedError\<close>. Every profile it returns has no password: the Employer and
  JobSeeker branches load the instance without it, and the serialisation of the answer
  drops it in all three.
\<close>

theorem getCurrentUser_dispatch:
  "(claim_role ru = ''admin'' \<longrightarrow>
      getCurrentUser ru db =
        (case findByPk (claim_id ru) (db Admin) of
           None \<Rightarrow> Inl (NotFoundError ''User not found'')
         | Some a \<Rightarrow> Inr \<lparr>status = 200, body = UserData (toJSON a)\<rparr>)) \<and>
   (claim_role ru = ''employer'' \<longrightarrow>
      getCurrentUser ru db =
        (case findByPk (claim_id ru) (db Employer) of
           None \<Rightarrow> Inl (NotFoundError ''User not found'')
         | Some a \<Rightarrow> Inr \<lparr>status = 200, body = UserData (toJSON a)\<rparr>)) \<and>
   (claim_role ru = ''jobSeeker'' \<longrightarrow>
      getCurrentUser ru db =
        (case findByPk (claim_id ru) (db JobSeeker) of
           None \<Rightarrow> Inl (NotFoundError ''User not found'')
         | Some a \<Rightarrow> Inr \<lparr>status = 200, body = UserData (toJSON a)\<rparr>)) \<and>
   (claim_role ru \<notin> {''admin'', ''employer'', ''jobSeeker''} \<longrightarrow>
      getCurrentUser ru db = Inl (UnauthorizedError ''Invalid role'')) \<and>
   (\<forall>m. model_of_role (claim_role ru) = Some m \<and> (\<forall>a\<in>set (db m). id_pk a \<noteq> claim_id ru) \<longrightarrow>
      getCurrentUser ru db = Inl (NotFoundError ''User not found'')) \<and>
   (\<forall>r. getCurrentUser ru db = Inr r \<longrightarrow> (\<exists>p. body r = UserData p \<and> password p = None)) \<and>
   (\<forall>p. load_current Employer (claim_id ru) db = Some p \<longrightarrow> password p = None) \<and>
   (\<forall>p. load_current JobSeeker (claim_id ru) db = Some p \<longrightarrow> password p = None)"
proof (intro conjI impI allI)
  assume "claim_role ru = ''admin''"
  then have "model_of_role (claim_role ru) = Some Admin" by (simp add: model_of_role_def)
  then show "getCurrentUser ru db =
        (case findByPk (claim_id ru) (db Admin) of
           None \<Rightarrow> Inl (NotFoundError ''User not found'')
         | Some a \<Rightarrow> Inr \<lparr>status = 200, body = UserData (toJSON a)\<rparr>)"
    by (rule getCurrentUser_Some)
next
  assume "claim_role ru = ''employer''"
  then have "model_of_role (claim_role ru) = Some Employer" by (simp add: model_of_role_def)
  then show "getCurrentUser ru db =
        (case findByPk (claim_id ru) (db Employer) of
           None \<Rightarrow> Inl (NotFoundError ''User not found'')
         | Some a \<Rightarrow> Inr \<lparr>status = 200, body = UserData (toJSON a)\<rparr>)"
    by (rule getCurrentUser_Some)
next
  assume "claim_role ru = ''jobSeeker''"
  then have "model_of_role (claim_role ru) = Some JobSeeker" by (simp add: model_of_role_def)
  then show "getCurrentUser ru db =
        (case findByPk (claim_id ru) (db JobSeeker) of
           None \<Rightarrow> Inl (NotFoundError ''User not found'')
         | Some a \<Rightarrow> Inr \<lparr>status = 200, body = UserData (toJSON a)\<rparr>)"
    by (rule getCurrentUser_Some)
next
  assume "claim_role ru \<notin> {''admin'', ''employer'', ''jobSeeker''}"
  then have "model_of_role (claim_role ru) = None" by (simp add: model_of_role_None_iff)
  then show "getCurrentUser ru db = Inl (UnauthorizedError ''Invalid role'')"
    by (simp add: getCurrentUser_def)
next
  fix m
  assume a: "model_of_role (claim_role ru) = Some m \<and> (\<forall>a\<in>set (db m). id_pk a \<noteq> claim_id ru)"
  then have "findByPk (claim_id ru) (db m) = None" by (simp add: findByPk_None_iff)
  with a show "getCurrentUser ru db = Inl (NotFoundError ''User not found'')"
    by (simp add: getCurrentUser_Some)
next
  fix r
  assume ok: "getCurrentUser ru db = Inr r"
  then obtain m where m: "model_of_role (claim_role ru) = Some m"
    by (cases "model_of_role (claim_role ru)") (auto simp: getCurrentUser_def)
  from ok obtain a :: account where "r = \<lparr>status = 200, body = UserData (toJSON a)\<rparr>"
    unfolding getCurrentUser_Some [OF m] by (auto split: option.splits)
  then show "\<exists>p. body r = UserData p \<and> password p = None"
    by (simp add: toJSON_password)
next
  fix p
  assume "load_current Employer (claim_id ru) db = Some p"
  then show "password p = None"
    by (auto simp: load_current_def exclude_password_def)
next
  fix p
  assume "load_current JobSeeker (claim_id ru) db = Some p"
  then show "password p = None"
    by (auto simp: load_current_def exclude_password_def)
qed

theorem getCurrentUser_dispatch_witness:
  "getCurrentUser \<lparr>claim_id = 1, claim_email = ''root@x.com'', claim_role = ''admin''\<rparr> demo_db
     = Inr \<lparr>status = 200, body = UserData (toJSON (demo_account 1 ''root@x.com'' ''pw0'' True))\<rparr> \<and>
   getCurrentUser \<lparr>claim_id = 1, claim_email = ''c@x.com'', claim_role = ''employer''\<rparr> demo_db
     = Inr \<lparr>status = 200, body = UserData (toJSON (demo_account 1 ''c@x.com'' ''pw2'' False))\<rparr> \<and>
   getCurrentUser \<lparr>claim_id = 7, claim_email = ''a@x.com'', claim_role = ''jobSeeker''\<rparr> demo_db
     = Inl (NotFoundError ''User not found'') \<and>
   getCurrentUser \<lparr>claim_id = 1, claim_email = ''a@x.com'', claim_role = ''jobseeker''\<rparr> demo_db
     = Inl (UnauthorizedError ''Invalid role'')"
  using
    getCurrentUser_dispatch [of "\<lparr>claim_id = 1, claim_email = ''root@x.com'', claim_role = ''admin''\<rparr>" demo_db]
    getCurrentUser_dispatch [of "\<lparr>claim_id = 1, claim_email = ''c@x.com'', claim_role = ''employer''\<rparr>" demo_db]
    getCurrentUser_dispatch [of "\<lparr>claim_id = 7, claim_email = ''a@x.com'', claim_role = ''jobSeeker''\<rparr>" demo_db]
    getCurrentUser_dispatch [of "\<lparr>claim_id = 1, claim_email = ''a@x.com'', claim_role = ''jobseeker''\<rparr>" demo_db]
  by (simp add: findByPk_def demo_db_def demo_account_def)

lemma save_eq_map:
  assumes "distinct (map id_pk tbl)" and "u \<in> set tbl" and "id_pk u' = id_pk u"
  shows "save u' tbl = map (\<lambda>a. if a = u then u' else a) tbl"
proof -
  have inj: "inj_on id_pk (set tbl)" using assms(1) by (simp add: distinct_map)
  have "\<And>a. a \<in> set tbl \<Longrightarrow> (id_pk a = id_pk u') = (a = u)"
    using inj assms(2,3) by (auto dest: inj_onD)
  then show ?thesis by (simp add: save_def cong: map_cong)
qed

lemma save_frame:
  assumes "distinct (map id_pk tbl)" and "u \<in> set tbl" and "id_pk u' = id_pk u"
    and "f u' = f u"
  shows "map f (save u' tbl) = map f tbl"
  unfolding save_eq_map [OF assms(1-3)] using assms(4) by (induction tbl) auto

lemma length_save: "length (save u tbl) = length tbl"
  by (simp add: save_def)

lemma changePassword_recognised:
  assumes "model_of_role (claim_role ru) = Some m"
    and "distinct (map id_pk (db m))"
  shows
    "case findByPk (claim_id ru) (db m) of
       None \<Rightarrow>
         changePassword bc ev ru currentPassword newPassword db
           = (Inl (NotFoundError ''User not found''), db)
     | Some user \<Rightarrow>
         if bcrypt_compare bc currentPassword (password user)
         then
           (\<exists>tbl'.
              changePassword bc ev ru currentPassword newPassword db
                = (Inr \<lparr>status = 200, body = Message True ''Password updated successfully''\<rparr>,
                   db(m := tbl')) \<and>
              tbl' = map (\<lambda>a. if a = user
                               then user\<lparr>password := bcrypt_hash bc newPassword
                                                          (bcrypt_genSalt bc 10 (salt_seed ev)),
                                         modified := Some (now ev)\<rparr>
                               else a) (db m) \<and>
              map id_pk tbl' = map id_pk (db m) \<and>
              map email tbl' = map email (db m) \<and>
              map deleted tbl' = map deleted (db m) \<and>
              map role tbl' = map role (db m) \<and>
              map reset_token tbl' = map reset_token (db m) \<and>
              map token_expiry tbl' = map token_expiry (db m) \<and>
              map other_fields tbl' = map other_fields (db m))
         else
           changePassword bc ev ru currentPassword newPassword db
             = (Inl (UnauthorizedError ''Current password is incorrect''), db)"
proof (cases "findByPk (claim_id ru) (db m)")
  case None
  then show ?thesis using assms(1) by (simp add: changePassword_def)
next
  case (Some user)
  let ?user' = "user\<lparr>password := bcrypt_hash bc newPassword (bcrypt_genSalt bc 10 (salt_seed ev)),
                       modified := Some (now ev)\<rparr>"
  have mem: "user \<in> set (db m)" using findByPk_SomeD [OF Some] by simp
  have id: "id_pk ?user' = id_pk user" by simp
  show ?thesis
  proof (cases "bcrypt_compare bc currentPassword (password user)")
    case False
    then show ?thesis using assms(1) Some by (simp add: changePassword_def)
  next
    case True
    have run: "changePassword bc ev ru currentPassword newPassword db
        = (Inr \<lparr>status = 200, body = Message True ''Password updated successfully''\<rparr>,
           db(m := save ?user' (db m)))"
      using assms(1) Some True by (simp add: changePassword_def Let_def)
    have eq: "save ?user' (db m) = map (\<lambda>a. if a = user then ?user' else a) (db m)"
      by (rule save_eq_map [OF assms(2) mem id])
    have fr: "map id_pk (save ?user' (db m)) = map id_pk (db m)"
      "map email (save ?user' (db m)) = map email (db m)"
      "map deleted (save ?user' (db m)) = map deleted (db m)"
      "map role (save ?user' (db m)) = map role (db m)"
      "map reset_token (save ?user' (db m)) = map reset_token (db m)"
      "map token_expiry (save ?user' (db m)) = map token_expiry (db m)"
      "map other_fields (save ?user' (db m)) = map other_fields (db m)"
      by (rule save_frame [OF assms(2) mem id], simp)+
    have "\<exists>tbl'.
              changePassword bc ev ru currentPassword newPassword db
                = (Inr \<lparr>status = 200, body = Message True ''Password updated successfully''\<rparr>,
                   db(m := tbl')) \<and>
              tbl' = map (\<lambda>a. if a = user then ?user' else a) (db m) \<and>
              map id_pk tbl' = map id_pk (db m) \<and>
              map email tbl' = map email (db m) \<and>
              map deleted tbl' = map deleted (db m) \<and>
              map role tbl' = map role (db m) \<and>
              map reset_token tbl' = map reset_token (db m) \<and>
              map token_expiry tbl' = map token_expiry (db m) \<and>
              map other_fields tbl' = map other_fields (db m)"
      by (rule exI [of _ "save ?user' (db m)"]) (intro conjI run eq fr)
    then show ?thesis
      unfolding Some option.case using True by (simp only: if_True)
  qed
qed

text \<open>
  Claim C8, as amended. On a store whose tables have distinct primary keys:
  with a role tag other than "admin", "employer" and "jobSeeker",
  \<^verbatim>\<open>changePassword\<close> throws \<open>UnauthorizedError\<close> "Invalid role" and the store is
  unchanged, whatever account and password it is given. With one of the three tags it
  looks the id up in the tag's model: without a row of the id it throws
  \<open>NotFoundError\<close> and the store is unchanged; when the current password does not
  verify it throws \<open>UnauthorizedError\<close> "Current password is incorrect" and the store
  is unchanged; otherwise it answers 200 with a message and no token, and the store
  differs only in the row found, whose password is the hash of the new password under a
  salt drawn in this request and whose modification time is now. Every other column of
  the table, email and the reset token and its expiry among them, is as before, and so
  are the other two tables.
\<close>

theorem changePassword_frame:
  assumes "distinct (map id_pk (db Admin))"
    and "distinct (map id_pk (db Employer))"
    and "distinct (map id_pk (db JobSeeker))"
  shows
    "(claim_role ru \<notin> {''admin'', ''employer'', ''jobSeeker''} \<longrightarrow>
        changePassword bc ev ru currentPassword newPassword db
          = (Inl (UnauthorizedError ''Invalid role''), db)) \<and>
     (\<forall>m. (claim_role ru, m)
             \<in> {(''admin'', Admin), (''employer'', Employer), (''jobSeeker'', JobSeeker)} \<longrightarrow>
        (case findByPk (claim_id ru) (db m) of
           None \<Rightarrow>
             changePassword bc ev ru currentPassword newPassword db
               = (Inl (NotFoundError ''User not found''), db)
         | Some user \<Rightarrow>
             if bcrypt_compare bc currentPassword (password user)
             then
               (\<exists>tbl'.
                  changePassword bc ev ru currentPassword newPassword db
                    = (Inr \<lparr>status = 200,
                             body = Message True ''Password updated successfully''\<rparr>,
                       db(m := tbl')) \<and>
                  tbl' = map (\<lambda>a. if a = user
                                   then user\<lparr>password := bcrypt_hash bc newPassword
                                                              (bcrypt_genSalt bc 10 (salt_seed ev)),
                                             modified := Some (now ev)\<rparr>
                                   else a) (db m) \<and>
                  map id_pk tbl' = map id_pk (db m) \<and>
                  map email tbl' = map email (db m) \<and>
                  map deleted tbl' = map deleted (db m) \<and>
                  map role tbl' = map role (db m) \<and>
                  map reset_token tbl' = map reset_token (db m) \<and>
                  map token_expiry tbl' = map token_expiry (db m) \<and>
                  map other_fields tbl' = map other_fields (db m))
             else
               changePassword bc ev ru currentPassword newPassword db
                 = (Inl (UnauthorizedError ''Current password is incorrect''), db)))"
proof (intro conjI impI allI)
  assume "claim_role ru \<notin> {''admin'', ''employer'', ''jobSeeker''}"
  then have "model_of_role (claim_role ru) = None" by (simp add: model_of_role_None_iff)
  then show "changePassword bc ev ru currentPassword newPassword db
          = (Inl (UnauthorizedError ''Invalid role''), db)"
    by (simp add: changePassword_def)
next
  fix m
  assume tag: "(claim_role ru, m)
             \<in> {(''admin'', Admin), (''employer'', Employer), (''jobSeeker'', JobSeeker)}"
  then have r: "model_of_role (claim_role ru) = Some m"
    by (auto simp: model_of_role_def)
  have d: "distinct (map id_pk (db m))" using assms by (cases m) simp_all
  show "case findByPk (claim_id ru) (db m) of
           None \<Rightarrow>
             changePassword bc ev ru currentPassword newPassword db
               = (Inl (NotFoundError ''User not found''), db)
         | Some user \<Rightarrow>
             if bcrypt_compare bc currentPassword (password user)
             then
               (\<exists>tbl'.
                  changePassword bc ev ru currentPassword newPassword db
                    = (Inr \<lparr>status = 200,
                             body = Message True ''Password updated successfully''\<rparr>,
                       db(m := tbl')) \<and>
                  tbl' = map (\<lambda>a. if a = user
                                   then user\<lparr>password := bcrypt_hash bc newPassword
                                                              (bcrypt_genSalt bc 10 (salt_seed ev)),
                                             modified := Some (now ev)\<rparr>
                                   else a) (db m) \<and>
                  map id_pk tbl' = map id_pk (db m) \<and>
                  map email tbl' = map email (db m) \<and>
                  map deleted tbl' = map deleted (db m) \<and>
                  map role tbl' = map role (db m) \<and>
                  map reset_token tbl' = map reset_token (db m) \<and>
                  map token_expiry tbl' = map token_expiry (db m) \<and>
                  map other_fields tbl' = map other_fields (db m))
             else
               changePassword bc ev ru currentPassword newPassword db
                 = (Inl (UnauthorizedError ''Current password is incorrect''), db)"
    by (rule changePassword_recognised [where db = db and m = m, OF r d])
qed

theorem changePassword_frame_witness:
  "distinct (map id_pk (demo_db Admin)) \<and>
   distinct (map id_pk (demo_db Employer)) \<and>
   distinct (map id_pk (demo_db JobSeeker)) \<and>
   changePassword demo_bcrypt demo_env (demo_identity 1 ''jobseeker'') ''pw1'' ''pw8'' demo_db
     = (Inl (UnauthorizedError ''Invalid role''), demo_db) \<and>
   (\<exists>tbl'.
      changePassword demo_bcrypt demo_env (demo_identity 1 ''jobSeeker'') ''pw1'' ''pw8'' demo_db
        = (Inr \<lparr>status = 200, body = Message True ''Password updated successfully''\<rparr>,
           demo_db(JobSeeker := tbl')) \<and>
      map password tbl' = [''$s9$pw8'', ''$s0$pw3''] \<and>
      map modified tbl' = [Some 1000, None] \<and>
      map email tbl' = map email (demo_db JobSeeker) \<and>
      map reset_token tbl' = map reset_token (demo_db JobSeeker)) \<and>
   changePassword demo_bcrypt demo_env (demo_identity 1 ''jobSeeker'') ''bad'' ''pw8'' demo_db
     = (Inl (UnauthorizedError ''Current password is incorrect''), demo_db) \<and>
   changePassword demo_bcrypt demo_env (demo_identity 7 ''jobSeeker'') ''pw1'' ''pw8'' demo_db
     = (Inl (NotFoundError ''User not found''), demo_db)"
proof -
  have h1: "(claim_role (demo_identity i ''jobSeeker''), JobSeeker)
      \<in> {(''admin'', Admin), (''employer'', Employer), (''jobSeeker'', JobSeeker)}" for i
    by (simp add: demo_identity_def)
  have h0: "claim_role (demo_identity 1 ''jobseeker'') \<notin> {''admin'', ''employer'', ''jobSeeker''}"
    by (simp add: demo_identity_def)
  have d1: "distinct (map id_pk (demo_db Admin))"
    and d2: "distinct (map id_pk (demo_db Employer))"
    and d3: "distinct (map id_pk (demo_db JobSeeker))"
    by (simp_all add: demo_db_def demo_account_def)
  note whole = changePassword_frame [where bc = demo_bcrypt and ev = demo_env
      and newPassword = "''pw8''" and db = demo_db, OF d1 d2 d3]
  have r0: "changePassword demo_bcrypt demo_env (demo_identity 1 ''jobseeker'') ''pw1'' ''pw8'' demo_db
     = (Inl (UnauthorizedError ''Invalid role''), demo_db)"
    using whole [where ru = "demo_identity 1 ''jobseeker''" and currentPassword = "''pw1''",
        THEN conjunct1] h0 by blast
  have f1: "findByPk (claim_id (demo_identity 1 ''jobSeeker'')) (demo_db JobSeeker)
      = Some (demo_account 1 ''a@x.com'' ''pw1'' False)"
    by (simp add: findByPk_def demo_identity_def demo_db_def demo_account_def)
  have f7: "findByPk (claim_id (demo_identity 7 ''jobSeeker'')) (demo_db JobSeeker) = None"
    by (simp add: findByPk_def demo_identity_def demo_db_def demo_account_def)
  have c1: "bcrypt_compare demo_bcrypt ''pw1'' (password (demo_account 1 ''a@x.com'' ''pw1'' False))"
    by (simp add: demo_bcrypt_def demo_account_def)
  have c2: "\<not> bcrypt_compare demo_bcrypt ''bad'' (password (demo_account 1 ''a@x.com'' ''pw1'' False))"
    by (simp add: demo_bcrypt_def demo_account_def)
  note t = whole [THEN conjunct2, rule_format, where m = JobSeeker]
  from t [where ru = "demo_identity 1 ''jobSeeker''" and currentPassword = "''pw1''", OF h1,
      unfolded f1 option.case] c1
  obtain tbl' where ok:
    "changePassword demo_bcrypt demo_env (demo_identity 1 ''jobSeeker'') ''pw1'' ''pw8'' demo_db
        = (Inr \<lparr>status = 200, body = Message True ''Password updated successfully''\<rparr>,
           demo_db(JobSeeker := tbl'))"
    "tbl' = map (\<lambda>a. if a = demo_account 1 ''a@x.com'' ''pw1'' False
                     then (demo_account 1 ''a@x.com'' ''pw1'' False)
                            \<lparr>password := bcrypt_hash demo_bcrypt ''pw8''
                                           (bcrypt_genSalt demo_bcrypt 10 (salt_seed demo_env)),
                             modified := Some (now demo_env)\<rparr>
                     else a) (demo_db JobSeeker)"
    "map email tbl' = map email (demo_db JobSeeker)"
    "map reset_token tbl' = map reset_token (demo_db JobSeeker)"
    by (simp only: if_True) blast
  have p: "map password tbl' = [''$s9$pw8'', ''$s0$pw3'']"
    and m: "map modified tbl' = [Some 1000, None]"
    unfolding ok(2) by (simp_all add: demo_db_def demo_account_def demo_bcrypt_def demo_env_def)
  have r2: "changePassword demo_bcrypt demo_env (demo_identity 1 ''jobSeeker'') ''bad'' ''pw8'' demo_db
     = (Inl (UnauthorizedError ''Current password is incorrect''), demo_db)"
    using t [where ru = "demo_identity 1 ''jobSeeker''" and currentPassword = "''bad''", OF h1] f1 c2 by simp
  have r3: "changePassword demo_bcrypt demo_env (demo_identity 7 ''jobSeeker'') ''pw1'' ''pw8'' demo_db
     = (Inl (NotFoundError ''User not found''), demo_db)"
    using t [where ru = "demo_identity 7 ''jobSeeker''" and currentPassword = "''pw1''", OF h1] f7 by simp
  have ex: "\<exists>tbl'.
      changePassword demo_bcrypt demo_env (demo_identity 1 ''jobSeeker'') ''pw1'' ''pw8'' demo_db
        = (Inr \<lparr>status = 200, body = Message True ''Password updated successfully''\<rparr>,
           demo_db(JobSeeker := tbl')) \<and>
      map password tbl' = [''$s9$pw8'', ''$s0$pw3''] \<and>
      map modified tbl' = [Some 1000, None] \<and>
      map email tbl' = map email (demo_db JobSeeker) \<and>
      map reset_token tbl' = map reset_token (demo_db JobSeeker)"
    by (intro exI [of _ tbl'] conjI ok(1,3,4) p m)
  show ?thesis by (intro conjI d1 d2 d3 r0 ex r2 r3)
qed

text \<open>
  Claim C8 as stated fails: with the identity of the token \<^verbatim>\<open>loginJobSeeker\<close> has just
  issued, whose account exists and whose current password verifies, nothing is replaced.
\<close>

theorem changePassword_login_identity_counterexample:
  "loginJobSeeker demo_bcrypt demo_cfg ''a@x.com'' ''pw1'' demo_db
     = Inr \<lparr>status = 200,
            body = LoginData (Some ''JobSeeker'') (toJSON (demo_account 1 ''a@x.com'' ''pw1'' False))
                     (generateToken demo_cfg (demo_account 1 ''a@x.com'' ''pw1'' False)
                        ''jobseeker'')\<rparr> \<and>
   findByPk (claim_id (payload (generateToken demo_cfg (demo_account 1 ''a@x.com'' ''pw1'' False)
                                  ''jobseeker''))) (demo_db JobSeeker)
     = Some (demo_account 1 ''a@x.com'' ''pw1'' False) \<and>
   bcrypt_compare demo_bcrypt ''pw1'' (password (demo_account 1 ''a@x.com'' ''pw1'' False)) \<and>
   changePassword demo_bcrypt demo_env
       (payload (generateToken demo_cfg (demo_account 1 ''a@x.com'' ''pw1'' False) ''jobseeker''))
       ''pw1'' ''pw8'' demo_db
     = (Inl (UnauthorizedError ''Invalid role''), demo_db)"
  by (simp add: loginJobSeeker_def findOne_def findByPk_def demo_db_def demo_account_def
      demo_bcrypt_def changePassword_def model_of_role_def generateToken_def)

lemma invalid_role_jobseeker:
  "getCurrentUser \<lparr>claim_id = i, claim_email = e, claim_role = ''jobseeker''\<rparr> db
     = Inl (UnauthorizedError ''Invalid role'')"
  "changePassword bc ev \<lparr>claim_id = i, claim_email = e, claim_role = ''jobseeker''\<rparr> cur new db
     = (Inl (UnauthorizedError ''Invalid role''), db)"
  by (simp_all add: getCurrentUser_def changePassword_def model_of_role_def)

text \<open>
  Claim C9. The token \<^verbatim>\<open>loginJobSeeker\<close> issues carries the role "jobseeker", and so
  does the token of \<^verbatim>\<open>unifiedLogin\<close> when a job seeker matched, since it lowercases
  the role it returns. \<^verbatim>\<open>getCurrentUser\<close> and \<^verbatim>\<open>changePassword\<close> know the tags
  "admin", "employer" and "jobSeeker" only, so with such an identity both throw
  \<open>UnauthorizedError\<close> "Invalid role", on any store. The token of
  \<^verbatim>\<open>registerJobSeeker\<close> carries "jobSeeker", a tag both handlers recognise: neither
  throws "Invalid role" for it.
\<close>

theorem jobseeker_tag_mismatch:
  "(loginJobSeeker bc cfg e pw db = Inr r \<longrightarrow>
      (\<exists>rl p t. body r = LoginData rl p t \<and> claim_role (payload t) = ''jobseeker'' \<and>
         getCurrentUser (payload t) db2 = Inl (UnauthorizedError ''Invalid role'') \<and>
         changePassword bc2 ev (payload t) currentPassword newPassword db2
           = (Inl (UnauthorizedError ''Invalid role''), db2))) \<and>
   ((\<exists>a\<in>set (db JobSeeker). email a = e) \<and> unifiedLogin bc cfg e pw db = Inr r \<longrightarrow>
      (\<exists>rl p t. body r = LoginData rl p t \<and> claim_role (payload t) = ''jobseeker'' \<and>
         getCurrentUser (payload t) db2 = Inl (UnauthorizedError ''Invalid role'') \<and>
         changePassword bc2 ev (payload t) currentPassword newPassword db2
           = (Inl (UnauthorizedError ''Invalid role''), db2))) \<and>
   (unifiedLogin bc cfg e pw db = Inr r \<longrightarrow>
      (\<exists>rl p t. body r = LoginData (Some rl) p t \<and> claim_role (payload t) = toLowerCase rl)) \<and>
   (registerJobSeeker bc cfg ev name e pw otherData db = (Inr r, db') \<longrightarrow>
      (\<exists>p t. body r = RegisterData p t \<and> claim_role (payload t) = ''jobSeeker'' \<and>
         model_of_role (claim_role (payload t)) = Some JobSeeker \<and>
         getCurrentUser (payload t) db2 \<noteq> Inl (UnauthorizedError ''Invalid role'') \<and>
         fst (changePassword bc2 ev (payload t) currentPassword newPassword db2)
           \<noteq> Inl (UnauthorizedError ''Invalid role''))) \<and>
   (model_of_role rl = None \<longleftrightarrow> rl \<notin> {''admin'', ''employer'', ''jobSeeker''})"
proof (intro conjI impI)
  assume ok: "loginJobSeeker bc cfg e pw db = Inr r"
  then obtain u :: account where r: "body r = LoginData (Some ''JobSeeker'') (toJSON u) (generateToken cfg u ''jobseeker'')"
    by (auto simp: loginJobSeeker_def split: option.splits if_splits)
  show "\<exists>rl p t. body r = LoginData rl p t \<and> claim_role (payload t) = ''jobseeker'' \<and>
         getCurrentUser (payload t) db2 = Inl (UnauthorizedError ''Invalid role'') \<and>
         changePassword bc2 ev (payload t) currentPassword newPassword db2
           = (Inl (UnauthorizedError ''Invalid role''), db2)"
    using r by (intro exI [of _ "Some ''JobSeeker''"] exI [of _ "toJSON u"]
        exI [of _ "generateToken cfg u ''jobseeker''"])
      (simp add: payload_generateToken invalid_role_jobseeker)
next
  assume a: "(\<exists>a\<in>set (db JobSeeker). email a = e) \<and> unifiedLogin bc cfg e pw db = Inr r"
  then obtain u0 where u0: "findOne (\<lambda>a. email a = e) (db JobSeeker) = Some u0"
    using findOne_Some_ex [of "db JobSeeker" "\<lambda>a. email a = e"] by blast
  have "loginJobSeeker bc cfg e pw db = Inr r"
    using a unifiedLogin_JobSeeker [where db = db and e = e, OF u0] by simp
  then obtain u :: account where r: "body r = LoginData (Some ''JobSeeker'') (toJSON u) (generateToken cfg u ''jobseeker'')"
    by (auto simp: loginJobSeeker_def split: option.splits if_splits)
  show "\<exists>rl p t. body r = LoginData rl p t \<and> claim_role (payload t) = ''jobseeker'' \<and>
         getCurrentUser (payload t) db2 = Inl (UnauthorizedError ''Invalid role'') \<and>
         changePassword bc2 ev (payload t) currentPassword newPassword db2
           = (Inl (UnauthorizedError ''Invalid role''), db2)"
    using r by (intro exI [of _ "Some ''JobSeeker''"] exI [of _ "toJSON u"]
        exI [of _ "generateToken cfg u ''jobseeker''"])
      (simp add: payload_generateToken invalid_role_jobseeker)
next
  assume "unifiedLogin bc cfg e pw db = Inr r"
  then obtain u :: account and rl where "r = unified_response cfg u rl"
    by (auto simp: unifiedLogin_def split: option.splits if_splits)
  then show "\<exists>rl p t. body r = LoginData (Some rl) p t \<and> claim_role (payload t) = toLowerCase rl"
    by (simp add: unified_response_def payload_generateToken)
next
  assume ok: "registerJobSeeker bc cfg ev name e pw otherData db = (Inr r, db')"
  define row where
    "row = create (db JobSeeker) e (bcrypt_hash bc pw (bcrypt_genSalt bc 10 (salt_seed ev)))
             ((''name'', name) # otherData)"
  let ?t = "generateToken cfg row ''jobSeeker''"
  from ok have r: "r = \<lparr>status = 201, body = RegisterData (toJSON row) ?t\<rparr>"
    by (auto simp: registerJobSeeker_def Let_def row_def split: if_splits)
  have tag: "claim_role (payload ?t) = ''jobSeeker''"
    by (simp add: payload_generateToken)
  have m: "model_of_role (claim_role (payload ?t)) = Some JobSeeker"
    by (simp add: tag model_of_role_def)
  have g: "getCurrentUser (payload ?t) db2 \<noteq> Inl (UnauthorizedError ''Invalid role'')"
    unfolding getCurrentUser_Some [OF m] by (simp split: option.splits)
  have c: "fst (changePassword bc2 ev (payload ?t) currentPassword newPassword db2)
      \<noteq> Inl (UnauthorizedError ''Invalid role'')"
    using m by (simp add: changePassword_def Let_def split: option.splits)
  show "\<exists>p t. body r = RegisterData p t \<and> claim_role (payload t) = ''jobSeeker'' \<and>
         model_of_role (claim_role (payload t)) = Some JobSeeker \<and>
         getCurrentUser (payload t) db2 \<noteq> Inl (UnauthorizedError ''Invalid role'') \<and>
         fst (changePassword bc2 ev (payload t) currentPassword newPassword db2)
           \<noteq> Inl (UnauthorizedError ''Invalid role'')"
    using r tag m g c by (intro exI [of _ "toJSON row"] exI [of _ ?t]) simp
next
  show "model_of_role rl = None \<longleftrightarrow> rl \<notin> {''admin'', ''employer'', ''jobSeeker''}"
    by (rule model_of_role_None_iff)
qed

theorem jobseeker_tag_mismatch_witness:
  "(\<exists>r. loginJobSeeker demo_bcrypt demo_cfg ''a@x.com'' ''pw1'' demo_db = Inr r \<and>
      (\<exists>rl p t. body r = LoginData rl p t \<and> claim_role (payload t) = ''jobseeker'' \<and>
         getCurrentUser (payload t) demo_db = Inl (UnauthorizedError ''Invalid role'') \<and>
         changePassword demo_bcrypt demo_env (payload t) ''pw1'' ''pw8'' demo_db
           = (Inl (UnauthorizedError ''Invalid role''), demo_db))) \<and>
   (\<exists>r. (\<exists>a\<in>set (demo_db JobSeeker). email a = ''a@x.com'') \<and>
      unifiedLogin demo_bcrypt demo_cfg ''a@x.com'' ''pw1'' demo_db = Inr r \<and>
      (\<exists>rl p t. body r = LoginData rl p t \<and> claim_role (payload t) = ''jobseeker'' \<and>
         getCurrentUser (payload t) demo_db = Inl (UnauthorizedError ''Invalid role''))) \<and>
   (\<exists>r db'. registerJobSeeker demo_bcrypt demo_cfg demo_env ''Aki'' ''new@x.com'' ''pw7'' [] demo_db
         = (Inr r, db') \<and>
      (\<exists>p t. body r = RegisterData p t \<and> claim_role (payload t) = ''jobSeeker'' \<and>
         getCurrentUser (payload t) demo_db \<noteq> Inl (UnauthorizedError ''Invalid role'')))"
proof -
  have "\<exists>r. loginJobSeeker demo_bcrypt demo_cfg ''a@x.com'' ''pw1'' demo_db = Inr r"
    by (simp add: loginJobSeeker_def findOne_def demo_db_def demo_account_def demo_bcrypt_def)
  then obtain r1 where r1: "loginJobSeeker demo_bcrypt demo_cfg ''a@x.com'' ''pw1'' demo_db = Inr r1" ..
  have "\<exists>r. unifiedLogin demo_bcrypt demo_cfg ''a@x.com'' ''pw1'' demo_db = Inr r"
    by (simp add: unifiedLogin_def findOne_def demo_db_def demo_account_def demo_bcrypt_def)
  then obtain r2 where r2: "unifiedLogin demo_bcrypt demo_cfg ''a@x.com'' ''pw1'' demo_db = Inr r2" ..
  have m: "\<exists>a\<in>set (demo_db JobSeeker). email a = ''a@x.com''"
    by (simp add: demo_db_def demo_account_def)
  have "\<exists>r db'. registerJobSeeker demo_bcrypt demo_cfg demo_env ''Aki'' ''new@x.com'' ''pw7'' [] demo_db
         = (Inr r, db')"
    by (simp add: registerJobSeeker_def findOne_def demo_db_def demo_account_def Let_def)
  then obtain r3 db3 where r3:
    "registerJobSeeker demo_bcrypt demo_cfg demo_env ''Aki'' ''new@x.com'' ''pw7'' [] demo_db
         = (Inr r3, db3)" by blast
  note t = jobseeker_tag_mismatch [where ?bc2.0 = demo_bcrypt and ?db2.0 = demo_db
      and currentPassword = "''pw1''" and newPassword = "''pw8''"]
  have c1: "\<exists>rl p t. body r1 = LoginData rl p t \<and> claim_role (payload t) = ''jobseeker'' \<and>
         getCurrentUser (payload t) demo_db = Inl (UnauthorizedError ''Invalid role'') \<and>
         changePassword demo_bcrypt demo_env (payload t) ''pw1'' ''pw8'' demo_db
           = (Inl (UnauthorizedError ''Invalid role''), demo_db)"
    using t [THEN conjunct1, rule_format, OF r1] .
  have "\<exists>rl p t. body r2 = LoginData rl p t \<and> claim_role (payload t) = ''jobseeker'' \<and>
         getCurrentUser (payload t) demo_db = Inl (UnauthorizedError ''Invalid role'') \<and>
         changePassword demo_bcrypt demo_env (payload t) ''pw1'' ''pw8'' demo_db
           = (Inl (UnauthorizedError ''Invalid role''), demo_db)"
    using t [THEN conjunct2, THEN conjunct1, rule_format, OF conjI [OF m r2]] .
  then have c2: "\<exists>rl p t. body r2 = LoginData rl p t \<and> claim_role (payload t) = ''jobseeker'' \<and>
         getCurrentUser (payload t) demo_db = Inl (UnauthorizedError ''Invalid role'')"
    by blast
  have c3: "\<exists>p t. body r3 = RegisterData p t \<and> claim_role (payload t) = ''jobSeeker'' \<and>
         getCurrentUser (payload t) demo_db \<noteq> Inl (UnauthorizedError ''Invalid role'')"
    using t [THEN conjunct2, THEN conjunct2, THEN conjunct2, THEN conjunct1, rule_format, OF r3]
    by blast
  show ?thesis using r1 c1 m r2 c2 r3 c3 by blast
qed

subsection \<open>Password reset\<close>

lemma demo_token: "toString_hex (randomBytes demo_env 32)
   = ''abababababababababababababababababababababababababababababababab''"
  by code_simp

lemma demo_token_down: "toString_hex (randomBytes demo_env_mail_down 32)
   = ''abababababababababababababababababababababababababababababababab''"
  by code_simp

lemma reset_Model_not_Admin: "reset_Model rl \<noteq> Admin"
  by (simp add: reset_Model_def)

lemma token_valid_iff:
  "token_valid tok t a \<longleftrightarrow> reset_token a = Some tok \<and> (\<exists>x. token_expiry a = Some x \<and> t < x)"
  by (auto simp: token_valid_def split: option.splits)

lemma token_valid_eq:
  "token_valid tok t
     = (\<lambda>a. reset_token a = Some tok \<and> (\<exists>x. token_expiry a = Some x \<and> t < x))"
  by (rule ext) (rule token_valid_iff)

text \<open>
  Claim C10. In both reset handlers the role "employer" selects the Employer table and
  every other role, "admin" and "jobSeeker" and any other string, the JobSeeker table:
  \<^verbatim>\<open>requestPasswordReset\<close> answers 404 when no row of that table has the email and
  otherwise saves token and expiry on the first such row, and \<^verbatim>\<open>resetPassword\<close>
  answers 400 when no row of that table holds the token unexpired and otherwise saves
  the new hash and clears token and expiry on the first such row. No role value is
  rejected, and for no role is the Admin table read or written.
\<close>

theorem reset_role_selection:
  "(\<forall>m. (rl = ''employer'' \<and> m = Employer) \<or> (rl \<noteq> ''employer'' \<and> m = JobSeeker) \<longrightarrow>
      requestPasswordReset ev e rl db =
        (case find (\<lambda>a. email a = e) (db m) of
           None \<Rightarrow> (Inr \<lparr>status = 404, body = Message False ''Email not found''\<rparr>, db, [])
         | Some user \<Rightarrow>
             (case sendMail_error ev of
                None \<Rightarrow> Inr \<lparr>status = 200, body = Message True ''Reset email sent!''\<rparr>
              | Some err \<Rightarrow> Inl (TransportError err),
              db(m := map (\<lambda>a. if id_pk a = id_pk user
                                then user\<lparr>reset_token := Some (toString_hex (randomBytes ev 32)),
                                          token_expiry := Some (now ev + 15 * 60 * 1000)\<rparr>
                                else a) (db m)),
              case sendMail_error ev of
                None \<Rightarrow> [\<lparr>mail_to = e,
                           mail_link = ''https://reuse-tenshoku.com/reset-password?token=''
                                         @ toString_hex (randomBytes ev 32) @ ''&role='' @ rl\<rparr>]
              | Some err \<Rightarrow> [])) \<and>
      resetPassword bc ev tok rl newPassword db =
        (case find (\<lambda>a. reset_token a = Some tok
                          \<and> (\<exists>x. token_expiry a = Some x \<and> now ev < x)) (db m) of
           None \<Rightarrow> (Inr \<lparr>status = 400, body = Message False ''Invalid or expired token''\<rparr>, db)
         | Some user \<Rightarrow>
             (Inr \<lparr>status = 200, body = Message True ''Password reset successful!''\<rparr>,
              db(m := map (\<lambda>a. if id_pk a = id_pk user
                                then user\<lparr>password := bcrypt_hash bc newPassword
                                                           (bcrypt_genSalt bc 10 (salt_seed ev)),
                                          reset_token := None, token_expiry := None\<rparr>
                                else a) (db m))))) \<and>
   fst (snd (requestPasswordReset ev e rl db)) Admin = db Admin \<and>
   snd (resetPassword bc ev tok rl newPassword db) Admin = db Admin \<and>
   fst (requestPasswordReset ev e rl (db(Admin := x))) = fst (requestPasswordReset ev e rl db) \<and>
   fst (resetPassword bc ev tok rl newPassword (db(Admin := x)))
     = fst (resetPassword bc ev tok rl newPassword db)"
proof (intro conjI impI allI)
  fix m
  assume "(rl = ''employer'' \<and> m = Employer) \<or> (rl \<noteq> ''employer'' \<and> m = JobSeeker)"
  then have sel: "reset_Model rl = m" by (auto simp: reset_Model_def)
  show "requestPasswordReset ev e rl db =
        (case find (\<lambda>a. email a = e) (db m) of
           None \<Rightarrow> (Inr \<lparr>status = 404, body = Message False ''Email not found''\<rparr>, db, [])
         | Some user \<Rightarrow>
             (case sendMail_error ev of
                None \<Rightarrow> Inr \<lparr>status = 200, body = Message True ''Reset email sent!''\<rparr>
              | Some err \<Rightarrow> Inl (TransportError err),
              db(m := map (\<lambda>a. if id_pk a = id_pk user
                                then user\<lparr>reset_token := Some (toString_hex (randomBytes ev 32)),
                                          token_expiry := Some (now ev + 15 * 60 * 1000)\<rparr>
                                else a) (db m)),
              case sendMail_error ev of
                None \<Rightarrow> [\<lparr>mail_to = e,
                           mail_link = ''https://reuse-tenshoku.com/reset-password?token=''
                                         @ toString_hex (randomBytes ev 32) @ ''&role='' @ rl\<rparr>]
              | Some err \<Rightarrow> []))"
    by (simp add: requestPasswordReset_def sel findOne_def save_def Let_def
        cong: if_cong split: option.splits)
  show "resetPassword bc ev tok rl newPassword db =
        (case find (\<lambda>a. reset_token a = Some tok
                          \<and> (\<exists>x. token_expiry a = Some x \<and> now ev < x)) (db m) of
           None \<Rightarrow> (Inr \<lparr>status = 400, body = Message False ''Invalid or expired token''\<rparr>, db)
         | Some user \<Rightarrow>
             (Inr \<lparr>status = 200, body = Message True ''Password reset successful!''\<rparr>,
              db(m := map (\<lambda>a. if id_pk a = id_pk user
                                then user\<lparr>password := bcrypt_hash bc newPassword
                                                           (bcrypt_genSalt bc 10 (salt_seed ev)),
                                          reset_token := None, token_expiry := None\<rparr>
                                else a) (db m))))"
    by (simp add: resetPassword_def sel findOne_def save_def Let_def token_valid_eq
        split: option.splits)
next
  show "fst (snd (requestPasswordReset ev e rl db)) Admin = db Admin"
    using reset_Model_not_Admin [of rl]
    by (simp add: requestPasswordReset_def Let_def split: option.splits)
  show "snd (resetPassword bc ev tok rl newPassword db) Admin = db Admin"
    using reset_Model_not_Admin [of rl]
    by (simp add: resetPassword_def Let_def split: option.splits)
  show "fst (requestPasswordReset ev e rl (db(Admin := x))) = fst (requestPasswordReset ev e rl db)"
    using reset_Model_not_Admin [of rl]
    by (simp add: requestPasswordReset_def Let_def split: option.splits)
  show "fst (resetPassword bc ev tok rl newPassword (db(Admin := x)))
     = fst (resetPassword bc ev tok rl newPassword db)"
    using reset_Model_not_Admin [of rl]
    by (simp add: resetPassword_def Let_def split: option.splits)
qed

theorem reset_role_selection_witness:
  "requestPasswordReset demo_env ''a@x.com'' ''admin'' demo_db
     = (Inr \<lparr>status = 200, body = Message True ''Reset email sent!''\<rparr>, demo_db_reset,
        [\<lparr>mail_to = ''a@x.com'',
          mail_link = ''https://reuse-tenshoku.com/reset-password?token='' @ demo_reset_token
                        @ ''&role=admin''\<rparr>]) \<and>
   requestPasswordReset demo_env ''root@x.com'' ''admin'' demo_db
     = (Inr \<lparr>status = 404, body = Message False ''Email not found''\<rparr>, demo_db, []) \<and>
   requestPasswordReset demo_env ''a@x.com'' ''employer'' demo_db
     = (Inr \<lparr>status = 404, body = Message False ''Email not found''\<rparr>, demo_db, []) \<and>
   resetPassword demo_bcrypt demo_env demo_reset_token ''admin'' ''pw8'' demo_db_reset
     = (Inr \<lparr>status = 200, body = Message True ''Password reset successful!''\<rparr>,
        demo_db_consumed) \<and>
   resetPassword demo_bcrypt demo_env demo_reset_token ''whatever'' ''pw8'' demo_db_reset
     = (Inr \<lparr>status = 200, body = Message True ''Password reset successful!''\<rparr>,
        demo_db_consumed) \<and>
   resetPassword demo_bcrypt demo_env demo_reset_token ''employer'' ''pw8'' demo_db_reset
     = (Inr \<lparr>status = 400, body = Message False ''Invalid or expired token''\<rparr>, demo_db_reset) \<and>
   resetPassword demo_bcrypt demo_env demo_reset_token ''admin'' ''pw8''
       (demo_db(Admin := demo_db_reset JobSeeker))
     = (Inr \<lparr>status = 400, body = Message False ''Invalid or expired token''\<rparr>,
        demo_db(Admin := demo_db_reset JobSeeker))"
proof -
  have js: "(rl = ''employer'' \<and> JobSeeker = Employer) \<or> (rl \<noteq> ''employer'' \<and> JobSeeker = JobSeeker)"
    if "rl \<noteq> ''employer''" for rl :: string
    using that by simp
  have em: "(''employer'' = ''employer'' \<and> Employer = Employer)
      \<or> (''employer'' \<noteq> ''employer'' \<and> Employer = JobSeeker)"
    by simp
  have ne: "''admin'' \<noteq> ''employer''" "''whatever'' \<noteq> ''employer''" by simp_all
  have t: "toString_hex (randomBytes demo_env 32) = demo_reset_token"
    by (simp add: demo_token demo_reset_token_def)
  have e: "now demo_env = 1000" "sendMail_error demo_env = None"
    by (simp_all add: demo_env_def)
  have tbl: "demo_db JobSeeker
      = [demo_account 1 ''a@x.com'' ''pw1'' False, demo_account 2 ''gone@x.com'' ''pw3'' True]"
    "demo_db Employer = [demo_account 1 ''c@x.com'' ''pw2'' False]"
    "demo_db_reset JobSeeker
      = [(demo_account 1 ''a@x.com'' ''pw1'' False)
           \<lparr>reset_token := Some demo_reset_token, token_expiry := Some 901000\<rparr>,
         demo_account 2 ''gone@x.com'' ''pw3'' True]"
    "demo_db_reset Employer = [demo_account 1 ''c@x.com'' ''pw2'' False]"
    by (simp_all add: demo_db_def demo_db_reset_def)
  have d1: "demo_db(JobSeeker :=
        [(demo_account 1 ''a@x.com'' ''pw1'' False)
           \<lparr>reset_token := Some demo_reset_token, token_expiry := Some 901000\<rparr>,
         demo_account 2 ''gone@x.com'' ''pw3'' True]) = demo_db_reset"
    by (simp add: demo_db_reset_def)
  have d2: "demo_db_reset(JobSeeker :=
        [(demo_account 1 ''a@x.com'' ''pw1'' False)
           \<lparr>password := ''$s9$pw8'', reset_token := None, token_expiry := None\<rparr>,
         demo_account 2 ''gone@x.com'' ''pw3'' True]) = demo_db_consumed"
    by (simp add: demo_db_reset_def demo_db_consumed_def demo_account_def)
  have h: "bcrypt_hash demo_bcrypt ''pw8'' (bcrypt_genSalt demo_bcrypt 10 (salt_seed demo_env))
      = ''$s9$pw8''"
    by (simp add: demo_bcrypt_def demo_env_def)
  have sel [simp]: "email (demo_account i e' pw d) = e'" "id_pk (demo_account i e' pw d) = i"
    "reset_token (demo_account i e' pw d) = None" "token_expiry (demo_account i e' pw d) = None"
    for i e' pw d
    by (simp_all add: demo_account_def)
  note th = reset_role_selection [where bc = demo_bcrypt and ev = demo_env,
      THEN conjunct1, rule_format]
  have c1: "requestPasswordReset demo_env ''a@x.com'' ''admin'' demo_db
     = (Inr \<lparr>status = 200, body = Message True ''Reset email sent!''\<rparr>, demo_db_reset,
        [\<lparr>mail_to = ''a@x.com'',
          mail_link = ''https://reuse-tenshoku.com/reset-password?token='' @ demo_reset_token
                        @ ''&role=admin''\<rparr>])"
    using th [where rl = "''admin''" and db = demo_db and e = "''a@x.com''",
        OF js [OF ne(1)], THEN conjunct1]
    by (simp add: tbl t e d1 del: One_nat_def)
  have c2: "requestPasswordReset demo_env ''root@x.com'' ''admin'' demo_db
     = (Inr \<lparr>status = 404, body = Message False ''Email not found''\<rparr>, demo_db, [])"
    using th [where rl = "''admin''" and db = demo_db and e = "''root@x.com''",
        OF js [OF ne(1)], THEN conjunct1]
    by (simp add: tbl del: One_nat_def)
  have c3: "requestPasswordReset demo_env ''a@x.com'' ''employer'' demo_db
     = (Inr \<lparr>status = 404, body = Message False ''Email not found''\<rparr>, demo_db, [])"
    using th [where rl = "''employer''" and db = demo_db and e = "''a@x.com''" and m = Employer,
        OF em, THEN conjunct1]
    by (simp add: tbl del: One_nat_def)
  have c4: "resetPassword demo_bcrypt demo_env demo_reset_token ''admin'' ''pw8'' demo_db_reset
     = (Inr \<lparr>status = 200, body = Message True ''Password reset successful!''\<rparr>,
        demo_db_consumed)"
    using th [where rl = "''admin''" and db = demo_db_reset and tok = demo_reset_token
        and newPassword = "''pw8''", OF js [OF ne(1)], THEN conjunct2]
    by (simp add: tbl e h d2 del: One_nat_def)
  have c5: "resetPassword demo_bcrypt demo_env demo_reset_token ''whatever'' ''pw8'' demo_db_reset
     = (Inr \<lparr>status = 200, body = Message True ''Password reset successful!''\<rparr>,
        demo_db_consumed)"
    using th [where rl = "''whatever''" and db = demo_db_reset and tok = demo_reset_token
        and newPassword = "''pw8''", OF js [OF ne(2)], THEN conjunct2]
    by (simp add: tbl e h d2 del: One_nat_def)
  have c6: "resetPassword demo_bcrypt demo_env demo_reset_token ''employer'' ''pw8'' demo_db_reset
     = (Inr \<lparr>status = 400, body = Message False ''Invalid or expired token''\<rparr>, demo_db_reset)"
    using th [where rl = "''employer''" and db = demo_db_reset and tok = demo_reset_token
        and newPassword = "''pw8''" and m = Employer, OF em, THEN conjunct2]
    by (simp add: tbl del: One_nat_def)
  have c7: "resetPassword demo_bcrypt demo_env demo_reset_token ''admin'' ''pw8''
       (demo_db(Admin := demo_db_reset JobSeeker))
     = (Inr \<lparr>status = 400, body = Message False ''Invalid or expired token''\<rparr>,
        demo_db(Admin := demo_db_reset JobSeeker))"
    using th [where rl = "''admin''" and db = "demo_db(Admin := demo_db_reset JobSeeker)"
        and tok = demo_reset_token and newPassword = "''pw8''", OF js [OF ne(1)], THEN conjunct2]
    by (simp add: tbl del: One_nat_def)
  show ?thesis by (intro conjI c1 c2 c3 c4 c5 c6 c7)
qed

lemma set_save:
  "a' \<in> set (save u tbl) \<Longrightarrow> a' = u \<or> (a' \<in> set tbl \<and> id_pk a' \<noteq> id_pk u)"
  by (auto simp: save_def split: if_splits)

lemma save_same_id: "a' \<in> set (save u tbl) \<Longrightarrow> id_pk a' = id_pk u \<Longrightarrow> a' = u"
  by (auto simp: save_def split: if_splits)

lemma resetPassword_None:
  "findOne (token_valid tok (now ev)) (db (reset_Model rl)) = None \<Longrightarrow>
   resetPassword bc ev tok rl newPassword db
     = (Inr \<lparr>status = 400, body = Message False ''Invalid or expired token''\<rparr>, db)"
  by (simp add: resetPassword_def)

lemma resetPassword_Some:
  "findOne (token_valid tok (now ev)) (db (reset_Model rl)) = Some user \<Longrightarrow>
   resetPassword bc ev tok rl newPassword db
     = (Inr \<lparr>status = 200, body = Message True ''Password reset successful!''\<rparr>,
        db(reset_Model rl :=
             save (user\<lparr>password := bcrypt_hash bc newPassword (bcrypt_genSalt bc 10 (salt_seed ev)),
                        reset_token := None, token_expiry := None\<rparr>)
               (db (reset_Model rl))))"
  by (simp add: resetPassword_def Let_def)

text \<open>
  Claim C5, as amended. \<^verbatim>\<open>resetPassword\<close> answers 200 exactly when some account of the selected
  model holds the given token with an expiry strictly after now; otherwise it answers the
  one 400 response "Invalid or expired token", whatever the reason, and writes nothing.
  On success the row found gets, in one \<^verbatim>\<open>save\<close>, the hash of the new password under
  a salt drawn in this request, and no reset token and no expiry. The token then matches
  that account no more: presented again, at any time and with any password, it gets the
  400 response exactly when no other account of the model holds the same token
  unexpired, and so whenever no other account held that token.
\<close>

theorem resetPassword_contract:
  "(fst (resetPassword bc ev tok rl newPassword db)
      = Inr \<lparr>status = 200, body = Message True ''Password reset successful!''\<rparr>
    \<longleftrightarrow> (\<exists>a\<in>set (db (reset_Model rl)).
           reset_token a = Some tok \<and> (\<exists>x. token_expiry a = Some x \<and> now ev < x))) \<and>
   (\<not> (\<exists>a\<in>set (db (reset_Model rl)).
           reset_token a = Some tok \<and> (\<exists>x. token_expiry a = Some x \<and> now ev < x)) \<longrightarrow>
      resetPassword bc ev tok rl newPassword db
        = (Inr \<lparr>status = 400, body = Message False ''Invalid or expired token''\<rparr>, db)) \<and>
   (\<forall>user. findOne (token_valid tok (now ev)) (db (reset_Model rl)) = Some user \<longrightarrow>
      resetPassword bc ev tok rl newPassword db
        = (Inr \<lparr>status = 200, body = Message True ''Password reset successful!''\<rparr>,
           db(reset_Model rl :=
                save (user\<lparr>password := bcrypt_hash bc newPassword
                                          (bcrypt_genSalt bc 10 (salt_seed ev)),
                           reset_token := None, token_expiry := None\<rparr>)
                  (db (reset_Model rl)))) \<and>
      (\<forall>a\<in>set (snd (resetPassword bc ev tok rl newPassword db) (reset_Model rl)).
         id_pk a = id_pk user \<longrightarrow>
           password a = bcrypt_hash bc newPassword (bcrypt_genSalt bc 10 (salt_seed ev)) \<and>
           reset_token a = None \<and> token_expiry a = None) \<and>
      ((\<forall>a\<in>set (db (reset_Model rl)). reset_token a = Some tok \<longrightarrow> id_pk a = id_pk user) \<longrightarrow>
         (\<forall>ev' newPassword'.
            resetPassword bc ev' tok rl newPassword'
              (snd (resetPassword bc ev tok rl newPassword db))
            = (Inr \<lparr>status = 400, body = Message False ''Invalid or expired token''\<rparr>,
               snd (resetPassword bc ev tok rl newPassword db)))) \<and>
      (\<forall>ev' newPassword'.
         fst (resetPassword bc ev' tok rl newPassword'
                (snd (resetPassword bc ev tok rl newPassword db)))
           = Inr \<lparr>status = 400, body = Message False ''Invalid or expired token''\<rparr>
         \<longleftrightarrow> \<not> (\<exists>a\<in>set (db (reset_Model rl)).
                  id_pk a \<noteq> id_pk user \<and> reset_token a = Some tok \<and>
                  (\<exists>x. token_expiry a = Some x \<and> now ev' < x))))"
proof (intro conjI impI allI ballI)
  show "fst (resetPassword bc ev tok rl newPassword db)
      = Inr \<lparr>status = 200, body = Message True ''Password reset successful!''\<rparr>
    \<longleftrightarrow> (\<exists>a\<in>set (db (reset_Model rl)).
           reset_token a = Some tok \<and> (\<exists>x. token_expiry a = Some x \<and> now ev < x))"
  proof (cases "findOne (token_valid tok (now ev)) (db (reset_Model rl))")
    case None
    then have "\<not> (\<exists>a\<in>set (db (reset_Model rl)).
           reset_token a = Some tok \<and> (\<exists>x. token_expiry a = Some x \<and> now ev < x))"
      by (simp add: findOne_None_iff token_valid_iff)
    then show ?thesis by (simp add: resetPassword_None [where db = db and rl = rl and tok = tok and ev = ev, OF None])
  next
    case (Some user)
    then have "\<exists>a\<in>set (db (reset_Model rl)).
           reset_token a = Some tok \<and> (\<exists>x. token_expiry a = Some x \<and> now ev < x)"
      using findOne_SomeD [OF Some] by (auto simp: token_valid_iff)
    then show ?thesis by (simp add: resetPassword_Some [where db = db and rl = rl and tok = tok and ev = ev, OF Some])
  qed
next
  assume "\<not> (\<exists>a\<in>set (db (reset_Model rl)).
           reset_token a = Some tok \<and> (\<exists>x. token_expiry a = Some x \<and> now ev < x))"
  then have "findOne (token_valid tok (now ev)) (db (reset_Model rl)) = None"
    by (simp add: findOne_None_iff token_valid_iff)
  then show "resetPassword bc ev tok rl newPassword db
        = (Inr \<lparr>status = 400, body = Message False ''Invalid or expired token''\<rparr>, db)"
    by (rule resetPassword_None [where db = db and rl = rl and tok = tok and ev = ev])
next
  fix user
  assume u: "findOne (token_valid tok (now ev)) (db (reset_Model rl)) = Some user"
  then show "resetPassword bc ev tok rl newPassword db
        = (Inr \<lparr>status = 200, body = Message True ''Password reset successful!''\<rparr>,
           db(reset_Model rl :=
                save (user\<lparr>password := bcrypt_hash bc newPassword
                                          (bcrypt_genSalt bc 10 (salt_seed ev)),
                           reset_token := None, token_expiry := None\<rparr>)
                  (db (reset_Model rl))))"
    by (rule resetPassword_Some [where db = db and rl = rl and tok = tok and ev = ev])
next
  fix user a
  assume u: "findOne (token_valid tok (now ev)) (db (reset_Model rl)) = Some user"
    and a: "a \<in> set (snd (resetPassword bc ev tok rl newPassword db) (reset_Model rl))"
    and i: "id_pk a = id_pk user"
  let ?u' = "user\<lparr>password := bcrypt_hash bc newPassword (bcrypt_genSalt bc 10 (salt_seed ev)),
                   reset_token := None, token_expiry := None\<rparr>"
  from a have "a \<in> set (save ?u' (db (reset_Model rl)))"
    by (simp add: resetPassword_Some [where db = db and rl = rl and tok = tok and ev = ev, OF u])
  then have "a = ?u'" using i by (auto dest: save_same_id)
  then show "password a = bcrypt_hash bc newPassword (bcrypt_genSalt bc 10 (salt_seed ev))"
    and "reset_token a = None" and "token_expiry a = None"
    by simp_all
next
  fix user and ev' :: env and newPassword'
  assume u: "findOne (token_valid tok (now ev)) (db (reset_Model rl)) = Some user"
    and uniq: "\<forall>a\<in>set (db (reset_Model rl)). reset_token a = Some tok \<longrightarrow> id_pk a = id_pk user"
  let ?u' = "user\<lparr>password := bcrypt_hash bc newPassword (bcrypt_genSalt bc 10 (salt_seed ev)),
                   reset_token := None, token_expiry := None\<rparr>"
  let ?db' = "snd (resetPassword bc ev tok rl newPassword db)"
  have tbl: "?db' (reset_Model rl) = save ?u' (db (reset_Model rl))"
    by (simp add: resetPassword_Some [where db = db and rl = rl and tok = tok and ev = ev, OF u])
  have "\<not> token_valid tok (now ev') a" if "a \<in> set (?db' (reset_Model rl))" for a
  proof -
    from that have "a = ?u' \<or> (a \<in> set (db (reset_Model rl)) \<and> id_pk a \<noteq> id_pk ?u')"
      unfolding tbl by (rule set_save)
    then show ?thesis
    proof
      assume "a = ?u'"
      then show ?thesis by (simp add: token_valid_def)
    next
      assume "a \<in> set (db (reset_Model rl)) \<and> id_pk a \<noteq> id_pk ?u'"
      then have "reset_token a \<noteq> Some tok" using uniq by auto
      then show ?thesis by (simp add: token_valid_def)
    qed
  qed
  then have "findOne (token_valid tok (now ev')) (?db' (reset_Model rl)) = None"
    by (simp add: findOne_None_iff)
  then show "resetPassword bc ev' tok rl newPassword' ?db'
            = (Inr \<lparr>status = 400, body = Message False ''Invalid or expired token''\<rparr>, ?db')"
    by (rule resetPassword_None [where db = ?db' and rl = rl and tok = tok and ev = ev'])
next
  fix user and ev' :: env and newPassword'
  assume u: "findOne (token_valid tok (now ev)) (db (reset_Model rl)) = Some user"
  let ?u' = "user\<lparr>password := bcrypt_hash bc newPassword (bcrypt_genSalt bc 10 (salt_seed ev)),
                   reset_token := None, token_expiry := None\<rparr>"
  let ?db' = "snd (resetPassword bc ev tok rl newPassword db)"
  have tbl: "?db' (reset_Model rl) = save ?u' (db (reset_Model rl))"
    by (simp add: resetPassword_Some [where db = db and rl = rl and tok = tok and ev = ev, OF u])
  have none: "findOne (token_valid tok (now ev')) (?db' (reset_Model rl)) = None
      \<longleftrightarrow> \<not> (\<exists>a\<in>set (db (reset_Model rl)).
                  id_pk a \<noteq> id_pk user \<and> reset_token a = Some tok \<and>
                  (\<exists>x. token_expiry a = Some x \<and> now ev' < x))"
    unfolding tbl findOne_None_iff by (auto simp: save_def token_valid_iff)
  have "fst (resetPassword bc ev' tok rl newPassword' ?db')
           = Inr \<lparr>status = 400, body = Message False ''Invalid or expired token''\<rparr>
      \<longleftrightarrow> findOne (token_valid tok (now ev')) (?db' (reset_Model rl)) = None"
    by (cases "findOne (token_valid tok (now ev')) (?db' (reset_Model rl))")
       (simp_all add: resetPassword_def Let_def)
  then show "fst (resetPassword bc ev' tok rl newPassword' ?db')
           = Inr \<lparr>status = 400, body = Message False ''Invalid or expired token''\<rparr>
         \<longleftrightarrow> \<not> (\<exists>a\<in>set (db (reset_Model rl)).
                  id_pk a \<noteq> id_pk user \<and> reset_token a = Some tok \<and>
                  (\<exists>x. token_expiry a = Some x \<and> now ev' < x))"
    using none by simp
qed

theorem resetPassword_contract_witness:
  "(\<exists>a\<in>set (demo_db_reset (reset_Model ''jobSeeker'')).
      reset_token a = Some demo_reset_token \<and> (\<exists>x. token_expiry a = Some x \<and> now demo_env < x)) \<and>
   resetPassword demo_bcrypt demo_env demo_reset_token ''jobSeeker'' ''pw8'' demo_db_reset
     = (Inr \<lparr>status = 200, body = Message True ''Password reset successful!''\<rparr>, demo_db_consumed) \<and>
   resetPassword demo_bcrypt demo_env demo_reset_token ''jobSeeker'' ''pw9'' demo_db_consumed
     = (Inr \<lparr>status = 400, body = Message False ''Invalid or expired token''\<rparr>, demo_db_consumed) \<and>
   resetPassword demo_bcrypt demo_env ''0000'' ''jobSeeker'' ''pw8'' demo_db_reset
     = (Inr \<lparr>status = 400, body = Message False ''Invalid or expired token''\<rparr>, demo_db_reset) \<and>
   resetPassword demo_bcrypt (demo_env\<lparr>now := 901000\<rparr>) demo_reset_token ''jobSeeker'' ''pw8''
       demo_db_reset
     = (Inr \<lparr>status = 400, body = Message False ''Invalid or expired token''\<rparr>, demo_db_reset)"
proof -
  let ?u = "(demo_account 1 ''a@x.com'' ''pw1'' False)
          \<lparr>reset_token := Some demo_reset_token, token_expiry := Some 901000\<rparr>"
  have m: "reset_Model ''jobSeeker'' = JobSeeker" by (simp add: reset_Model_def)
  have tbl: "demo_db_reset JobSeeker = [?u, demo_account 2 ''gone@x.com'' ''pw3'' True]"
    by (simp add: demo_db_reset_def)
  have ex: "\<exists>a\<in>set (demo_db_reset (reset_Model ''jobSeeker'')).
      reset_token a = Some demo_reset_token \<and> (\<exists>x. token_expiry a = Some x \<and> now demo_env < x)"
    by (simp add: m tbl demo_env_def)
  have f: "findOne (token_valid demo_reset_token (now demo_env)) (demo_db_reset (reset_Model ''jobSeeker''))
      = Some ?u"
    by (simp add: m tbl findOne_def token_valid_def demo_env_def)
  have uniq: "\<forall>a\<in>set (demo_db_reset (reset_Model ''jobSeeker'')).
      reset_token a = Some demo_reset_token \<longrightarrow> id_pk a = id_pk ?u"
    by (simp add: m tbl demo_account_def)
  have s: "save ((demo_account 1 ''a@x.com'' ''pw1'' False)
                   \<lparr>password := bcrypt_hash demo_bcrypt ''pw8''
                                 (bcrypt_genSalt demo_bcrypt 10 (salt_seed demo_env)),
                  reset_token := None, token_expiry := None\<rparr>) (demo_db_reset JobSeeker)
       = demo_db_consumed JobSeeker"
    by (simp add: save_def tbl demo_db_consumed_def demo_account_def demo_bcrypt_def demo_env_def)
  have d: "demo_db_reset(JobSeeker := demo_db_consumed JobSeeker) = demo_db_consumed"
    by (simp add: demo_db_reset_def demo_db_consumed_def)
  note t = resetPassword_contract [where bc = demo_bcrypt and rl = "''jobSeeker''"
      and db = demo_db_reset]
  note t3 = t [where ev = demo_env and tok = demo_reset_token and newPassword = "''pw8''",
      THEN conjunct2, THEN conjunct2, rule_format, OF f]
  have c1: "resetPassword demo_bcrypt demo_env demo_reset_token ''jobSeeker'' ''pw8'' demo_db_reset
     = (Inr \<lparr>status = 200, body = Message True ''Password reset successful!''\<rparr>, demo_db_consumed)"
    using t3 [THEN conjunct1] by (simp add: m s d del: One_nat_def)
  have c2: "resetPassword demo_bcrypt demo_env demo_reset_token ''jobSeeker'' ''pw9'' demo_db_consumed
     = (Inr \<lparr>status = 400, body = Message False ''Invalid or expired token''\<rparr>, demo_db_consumed)"
    using t3 [THEN conjunct2, THEN conjunct2, THEN conjunct1, rule_format, OF uniq [rule_format],
        where ev' = demo_env and newPassword' = "''pw9''"]
    by (simp add: c1)
  have n3: "\<not> (\<exists>a\<in>set (demo_db_reset (reset_Model ''jobSeeker'')).
      reset_token a = Some ''0000'' \<and> (\<exists>x. token_expiry a = Some x \<and> now demo_env < x))"
    by (simp add: m tbl demo_reset_token_def demo_account_def)
  have c3: "resetPassword demo_bcrypt demo_env ''0000'' ''jobSeeker'' ''pw8'' demo_db_reset
     = (Inr \<lparr>status = 400, body = Message False ''Invalid or expired token''\<rparr>, demo_db_reset)"
    using t [where ev = demo_env and tok = "''0000''" and newPassword = "''pw8''",
        THEN conjunct2, THEN conjunct1, rule_format, OF n3] .
  have n4: "\<not> (\<exists>a\<in>set (demo_db_reset (reset_Model ''jobSeeker'')).
      reset_token a = Some demo_reset_token
      \<and> (\<exists>x. token_expiry a = Some x \<and> now (demo_env\<lparr>now := 901000\<rparr>) < x))"
    by (simp add: m tbl demo_account_def)
  have c4: "resetPassword demo_bcrypt (demo_env\<lparr>now := 901000\<rparr>) demo_reset_token ''jobSeeker'' ''pw8''
       demo_db_reset
     = (Inr \<lparr>status = 400, body = Message False ''Invalid or expired token''\<rparr>, demo_db_reset)"
    using t [where ev = "demo_env\<lparr>now := 901000\<rparr>" and tok = demo_reset_token
        and newPassword = "''pw8''", THEN conjunct2, THEN conjunct1, rule_format, OF n4] .
  show ?thesis by (intro conjI ex c1 c2 c3 c4)
qed

text \<open>
  Claim C5 as stated fails: when two job seekers hold the same unexpired token, the
  token is consumed for the first and, presented again, is accepted for the second.
\<close>

theorem reset_token_reuse_counterexample:
  "fst (resetPassword demo_bcrypt demo_env demo_reset_token ''jobSeeker'' ''pw8'' demo_db_shared)
     = Inr \<lparr>status = 200, body = Message True ''Password reset successful!''\<rparr> \<and>
   map reset_token
     (snd (resetPassword demo_bcrypt demo_env demo_reset_token ''jobSeeker'' ''pw8'' demo_db_shared)
        JobSeeker)
     = [None, Some demo_reset_token] \<and>
   fst (resetPassword demo_bcrypt demo_env demo_reset_token ''jobSeeker'' ''pw9''
          (snd (resetPassword demo_bcrypt demo_env demo_reset_token ''jobSeeker'' ''pw8''
                  demo_db_shared)))
     = Inr \<lparr>status = 200, body = Message True ''Password reset successful!''\<rparr>"
  by (simp add: resetPassword_def reset_Model_def findOne_def token_valid_def save_def Let_def
      demo_db_shared_def demo_account_def demo_env_def)

lemma hex_digit_mem: "d < 16 \<Longrightarrow> hex_digit d \<in> set ''0123456789abcdef''"
  unfolding hex_digit_def by (rule nth_mem) simp

lemma length_toString_hex: "length (toString_hex bs) = 2 * length bs"
  by (induction bs) (simp_all add: toString_hex_def)

lemma set_toString_hex: "set (toString_hex bs) \<subseteq> set ''0123456789abcdef''"
proof -
  have "hex_digit (unat b div 16) \<in> set ''0123456789abcdef''" for b :: "8 word"
  proof (rule hex_digit_mem)
    have "unat b < 2 ^ 8" using unsigned_less [of b] by simp
    then show "unat b div 16 < 16" by simp
  qed
  moreover have "hex_digit (unat b mod 16) \<in> set ''0123456789abcdef''" for b :: "8 word"
    by (rule hex_digit_mem) simp
  ultimately show ?thesis
    unfolding toString_hex_def by (induction bs) auto
qed

lemma length_randomBytes: "length (randomBytes ev n) = n"
  by (simp add: randomBytes_def)

text \<open>
  Claim C6, as amended. When an account of the selected model has the email,
  \<^verbatim>\<open>requestPasswordReset\<close> draws 32 random bytes, writes them in hexadecimal (64
  characters) as the account's reset token with the expiry 15 minutes after now, and
  saves the account. What it answers then follows the mail transport: 200 "Reset email
  sent!", with the mail carrying the link with token and role, when
  \<^verbatim>\<open>sendMail\<close> resolves; when it rejects, the error is thrown to \<^verbatim>\<open>next\<close> and no
  200 is sent, while the token stays saved.
\<close>

theorem requestPasswordReset_found:
  "findOne (\<lambda>a. email a = e) (db (reset_Model rl)) = Some user \<longrightarrow>
     length (randomBytes ev 32) = 32 \<and>
     length (toString_hex (randomBytes ev 32)) = 64 \<and>
     set (toString_hex (randomBytes ev 32)) \<subseteq> set ''0123456789abcdef'' \<and>
     requestPasswordReset ev e rl db =
       (case sendMail_error ev of
          None \<Rightarrow> Inr \<lparr>status = 200, body = Message True ''Reset email sent!''\<rparr>
        | Some err \<Rightarrow> Inl (TransportError err),
        db(reset_Model rl :=
             save (user\<lparr>reset_token := Some (toString_hex (randomBytes ev 32)),
                        token_expiry := Some (now ev + 900000)\<rparr>)
               (db (reset_Model rl))),
        case sendMail_error ev of
          None \<Rightarrow> [\<lparr>mail_to = e,
                     mail_link = ''https://reuse-tenshoku.com/reset-password?token=''
                                   @ toString_hex (randomBytes ev 32) @ ''&role='' @ rl\<rparr>]
        | Some err \<Rightarrow> []) \<and>
     (\<forall>a\<in>set (fst (snd (requestPasswordReset ev e rl db)) (reset_Model rl)).
        id_pk a = id_pk user \<longrightarrow>
          reset_token a = Some (toString_hex (randomBytes ev 32)) \<and>
          token_expiry a = Some (now ev + 15 * 60 * 1000))"
proof (intro impI conjI ballI)
  show "length (randomBytes ev 32) = 32" by (rule length_randomBytes)
  show "length (toString_hex (randomBytes ev 32)) = 64"
    by (simp add: length_toString_hex length_randomBytes)
  show "set (toString_hex (randomBytes ev 32)) \<subseteq> set ''0123456789abcdef''"
    by (rule set_toString_hex)
next
  assume u: "findOne (\<lambda>a. email a = e) (db (reset_Model rl)) = Some user"
  then show run: "requestPasswordReset ev e rl db =
       (case sendMail_error ev of
          None \<Rightarrow> Inr \<lparr>status = 200, body = Message True ''Reset email sent!''\<rparr>
        | Some err \<Rightarrow> Inl (TransportError err),
        db(reset_Model rl :=
             save (user\<lparr>reset_token := Some (toString_hex (randomBytes ev 32)),
                        token_expiry := Some (now ev + 900000)\<rparr>)
               (db (reset_Model rl))),
        case sendMail_error ev of
          None \<Rightarrow> [\<lparr>mail_to = e,
                     mail_link = ''https://reuse-tenshoku.com/reset-password?token=''
                                   @ toString_hex (randomBytes ev 32) @ ''&role='' @ rl\<rparr>]
        | Some err \<Rightarrow> [])"
    by (simp add: requestPasswordReset_def Let_def split: option.splits)
  fix a
  assume "a \<in> set (fst (snd (requestPasswordReset ev e rl db)) (reset_Model rl))"
    and i: "id_pk a = id_pk user"
  then have "a \<in> set (save (user\<lparr>reset_token := Some (toString_hex (randomBytes ev 32)),
                        token_expiry := Some (now ev + 900000)\<rparr>) (db (reset_Model rl)))"
    unfolding run by simp
  then have "a = user\<lparr>reset_token := Some (toString_hex (randomBytes ev 32)),
                        token_expiry := Some (now ev + 900000)\<rparr>"
    using i by (auto dest: save_same_id)
  then show "reset_token a = Some (toString_hex (randomBytes ev 32))"
    and "token_expiry a = Some (now ev + 15 * 60 * 1000)"
    by simp_all
qed

theorem requestPasswordReset_found_witness:
  "findOne (\<lambda>a. email a = ''a@x.com'') (demo_db (reset_Model ''jobSeeker''))
     = Some (demo_account 1 ''a@x.com'' ''pw1'' False) \<and>
   requestPasswordReset demo_env ''a@x.com'' ''jobSeeker'' demo_db
     = (Inr \<lparr>status = 200, body = Message True ''Reset email sent!''\<rparr>, demo_db_reset,
        [\<lparr>mail_to = ''a@x.com'',
          mail_link = ''https://reuse-tenshoku.com/reset-password?token='' @ demo_reset_token
                        @ ''&role=jobSeeker''\<rparr>]) \<and>
   requestPasswordReset demo_env_mail_down ''a@x.com'' ''jobSeeker'' demo_db
     = (Inl (TransportError ''ECONNREFUSED''), demo_db_reset, [])"
proof -
  have f: "findOne (\<lambda>a. email a = ''a@x.com'') (demo_db (reset_Model ''jobSeeker''))
     = Some (demo_account 1 ''a@x.com'' ''pw1'' False)"
    by (simp add: findOne_def reset_Model_def demo_db_def demo_account_def)
  have s: "save ((demo_account 1 ''a@x.com'' ''pw1'' False)
                  \<lparr>reset_token := Some demo_reset_token, token_expiry := Some 901000\<rparr>)
             (demo_db JobSeeker)
       = demo_db_reset JobSeeker"
    by (simp add: save_def demo_db_reset_def demo_db_def demo_account_def)
  have d: "demo_db(JobSeeker := demo_db_reset JobSeeker) = demo_db_reset"
    by (simp add: demo_db_reset_def)
  have m: "reset_Model ''jobSeeker'' = JobSeeker" by (simp add: reset_Model_def)
  have e: "now demo_env + 900000 = 901000" "sendMail_error demo_env = None"
    "now demo_env_mail_down + 900000 = 901000"
    "sendMail_error demo_env_mail_down = Some ''ECONNREFUSED''"
    by (simp_all add: demo_env_def demo_env_mail_down_def)
  have t: "toString_hex (randomBytes demo_env 32) = demo_reset_token"
    "toString_hex (randomBytes demo_env_mail_down 32) = demo_reset_token"
    by (simp_all add: demo_token demo_token_down demo_reset_token_def)
  have c1: "requestPasswordReset demo_env ''a@x.com'' ''jobSeeker'' demo_db
     = (Inr \<lparr>status = 200, body = Message True ''Reset email sent!''\<rparr>, demo_db_reset,
        [\<lparr>mail_to = ''a@x.com'',
          mail_link = ''https://reuse-tenshoku.com/reset-password?token='' @ demo_reset_token
                        @ ''&role=jobSeeker''\<rparr>])"
    using requestPasswordReset_found [where db = demo_db and rl = "''jobSeeker''" and ev = demo_env,
        rule_format, OF f]
    by (simp add: m e t s d del: One_nat_def)
  have c2: "requestPasswordReset demo_env_mail_down ''a@x.com'' ''jobSeeker'' demo_db
     = (Inl (TransportError ''ECONNREFUSED''), demo_db_reset, [])"
    using requestPasswordReset_found [where db = demo_db and rl = "''jobSeeker''"
        and ev = demo_env_mail_down, rule_format, OF f]
    by (simp add: m e t s d del: One_nat_def)
  show ?thesis by (intro conjI f c1 c2)
qed

text \<open>
  Claim C6 as stated fails: with the token saved and the mail transport down, the
  handler does not answer 200, it throws the transport's error.
\<close>

theorem reset_mail_failure_counterexample:
  "fst (requestPasswordReset demo_env_mail_down ''a@x.com'' ''jobSeeker'' demo_db)
     = Inl (TransportError ''ECONNREFUSED'') \<and>
   map reset_token (fst (snd (requestPasswordReset demo_env_mail_down ''a@x.com'' ''jobSeeker'' demo_db))
                      JobSeeker)
     = [Some ''abababababababababababababababababababababababababababababababab'', None] \<and>
   map token_expiry (fst (snd (requestPasswordReset demo_env_mail_down ''a@x.com'' ''jobSeeker'' demo_db))
                      JobSeeker)
     = [Some 901000, None]"
  by (simp add: requestPasswordReset_def reset_Model_def findOne_def demo_db_def demo_account_def
      save_def demo_token_down Let_def)
     (simp add: demo_env_mail_down_def demo_env_def)

end
